theory Spec2Isabelle
  imports Complex_Main
begin

section \<open>Tensors\<close>

text \<open>
  The language model of \<^verbatim>\<open>model.py\<close> is a computation over float32 tensors. The
  embedding takes the reals for the scalars, a rank-1 tensor is a list and a rank-2 tensor
  a list of rows. Shapes are static in the tensor library and a mismatch is refused when
  the graph is built; the list operations below are total and cut to the shorter operand
  instead, so the theorems about shaped results carry the shapes as hypotheses.
\<close>

type_synonym vec = "real list"
type_synonym mat = "real list list"

definition zeros :: "nat \<Rightarrow> vec" where
  "zeros n = replicate n 0"

definition vadd :: "vec \<Rightarrow> vec \<Rightarrow> vec" where
  "vadd u v = map2 (+) u v"

definition vmul :: "vec \<Rightarrow> vec \<Rightarrow> vec" where
  "vmul u v = map2 (*) u v"

text \<open>
  \<open>vecmat m x w\<close> is the row vector \<open>x\<close> times the matrix \<open>w\<close> of \<open>m\<close> columns, one row
  of \<open>w\<close> for each entry of \<open>x\<close>; \<open>matmul\<close> is \<^verbatim>\<open>tf.matmul\<close> on a batch of rows.
\<close>

fun vecmat :: "nat \<Rightarrow> vec \<Rightarrow> mat \<Rightarrow> vec" where
  "vecmat m (a # x) (r # w) = vadd (map ((*) a) r) (vecmat m x w)"
| "vecmat m x w = zeros m"

definition matmul :: "nat \<Rightarrow> mat \<Rightarrow> mat \<Rightarrow> mat" where
  "matmul m x w = map (\<lambda>row. vecmat m row w) x"

definition sigmoid :: "real \<Rightarrow> real" where
  "sigmoid a = 1 / (1 + exp (- a))"

definition mean :: "vec \<Rightarrow> real" where
  "mean v = sum_list v / real (length v)"

definition variance :: "vec \<Rightarrow> real" where
  "variance v = mean (map (\<lambda>a. (a - mean v)\<^sup>2) v)"

text \<open>
  \<^verbatim>\<open>tf.nn.dropout(x, keep_prob)\<close> draws one uniform number of \<open>[0, 1)\<close> for each entry,
  keeps the entry when \<open>floor (keep_prob + u)\<close> is 1 and divides what it keeps by
  \<open>keep_prob\<close>. The draws are an explicit argument: entry \<open>j\<close> uses \<open>u j\<close>.
\<close>

type_synonym noise = "nat \<Rightarrow> real"

definition uniform01 :: "noise \<Rightarrow> bool" where
  "uniform01 u = (\<forall>j. 0 \<le> u j \<and> u j < 1)"

definition dropout :: "vec \<Rightarrow> real \<Rightarrow> noise \<Rightarrow> vec" where
  "dropout x kp u =
     map (\<lambda>(j, a). a / kp * of_int \<lfloor>kp + u j\<rfloor>) (zip [0..<length x] x)"

section \<open>The recurrent cells\<close>

text \<open>
  \<^verbatim>\<open>model.py\<close> imports \<^verbatim>\<open>CustomLSTMCell\<close> and \<^verbatim>\<open>HyperLSTMCell\<close> from the module
  \<^verbatim>\<open>cells\<close>, whose source is missing from the repository's files. Their transitions
  are written here from sections 4.1 and 4.2 of the specification.
\<close>

record lstm_state =
  hidden :: vec
  memory :: vec

text \<open>A layer normalisation: learned scale and shift, and the guard added to the variance.\<close>

record ln_vars =
  ln_gamma :: vec
  ln_beta :: vec
  ln_epsilon :: real

record lstm_vars =
  kernel :: mat
  bias :: vec
  norm_i :: ln_vars
  norm_f :: ln_vars
  norm_o :: ln_vars
  norm_g :: ln_vars
  norm_c :: ln_vars

text \<open>
  The keyword arguments a cell is built with. \<open>dropout_keep_prob\<close> is \<open>None\<close> until
  \<^verbatim>\<open>_build_model\<close> stores the key.
\<close>

record lstm_args =
  num_units :: nat
  layer_norm :: bool
  dropout_keep_prob :: "real option"

record hyper_args = lstm_args +
  num_units_hyper :: nat
  embedding_dim :: nat

definition layer_norm_op :: "ln_vars \<Rightarrow> vec \<Rightarrow> vec" where
  \<comment> \<open>Modelled from the spec: section 4.1 step 2 and the glossary (\<^verbatim>\<open>cells.py\<close> is missing):
      per-sample mean and variance over the hidden dimension, then a learned scale and
      shift; the variance is guarded by an epsilon (section 8).\<close>
  "layer_norm_op p v =
     vadd (vmul (ln_gamma p) (map (\<lambda>a. (a - mean v) / sqrt (variance v + ln_epsilon p)) v))
          (ln_beta p)"

definition block :: "nat \<Rightarrow> nat \<Rightarrow> vec \<Rightarrow> vec" where
  "block n k v = take n (drop (k * n) v)"

definition gate_blocks :: "nat \<Rightarrow> vec \<Rightarrow> vec \<times> vec \<times> vec \<times> vec" where
  \<comment> \<open>The four blocks of width \<open>n\<close>, in the order input gate, forget gate, output gate,
      candidate.\<close>
  "gate_blocks n v = (block n 0 v, block n 1 v, block n 2 v, block n 3 v)"

definition custom_preact :: "nat \<Rightarrow> lstm_vars \<Rightarrow> vec \<Rightarrow> vec \<Rightarrow> vec \<times> vec \<times> vec \<times> vec" where
  \<comment> \<open>Modelled from the spec: section 4.1 step 1 (\<^verbatim>\<open>cells.py\<close> is missing): one affine
      transform of the concatenation \<open>[x, h]\<close>, cut into four pre-activation blocks.\<close>
  "custom_preact n p x h =
     gate_blocks n (vadd (vecmat (4 * n) (x @ h) (kernel p)) (bias p))"

definition lstm_update ::
  "bool \<Rightarrow> real option \<Rightarrow> lstm_vars \<Rightarrow> noise \<Rightarrow> vec \<Rightarrow> vec \<times> vec \<times> vec \<times> vec
     \<Rightarrow> vec \<times> lstm_state" where
  \<comment> \<open>Modelled from the spec: section 4.1 steps 2 to 7 (\<^verbatim>\<open>cells.py\<close> is missing), from
      the four pre-activation blocks and the previous memory to the output and the new
      state. The recurrent dropout is enabled when a keep-probability is given.\<close>
  "lstm_update lnorm kp p u c_prev pre =
     (case pre of (zi, zf, zo, zg) \<Rightarrow>
       let gi = map sigmoid (if lnorm then layer_norm_op (norm_i p) zi else zi);
           gf = map sigmoid (if lnorm then layer_norm_op (norm_f p) zf else zf);
           go = map sigmoid (if lnorm then layer_norm_op (norm_o p) zo else zo);
           gg = map tanh (if lnorm then layer_norm_op (norm_g p) zg else zg);
           gd = (case kp of None \<Rightarrow> gg | Some q \<Rightarrow> dropout gg q u);
           c = vadd (vmul gf c_prev) (vmul gi gd);
           h = vmul go (map tanh (if lnorm then layer_norm_op (norm_c p) c else c))
       in (h, \<lparr>hidden = h, memory = c\<rparr>))"

definition CustomLSTMCell_call ::
  "nat \<Rightarrow> bool \<Rightarrow> real option \<Rightarrow> lstm_vars \<Rightarrow> noise \<Rightarrow> lstm_state \<Rightarrow> vec \<Rightarrow> vec \<times> lstm_state" where
  \<comment> \<open>Modelled from the spec: section 4.1 (\<^verbatim>\<open>cells.py\<close> is missing): one transition of
      the standard cell of \<open>n\<close> units from the state \<open>s\<close> on the input \<open>x\<close>.\<close>
  "CustomLSTMCell_call n lnorm kp p u s x =
     lstm_update lnorm kp p u (memory s) (custom_preact n p x (hidden s))"

text \<open>
  The hypernetwork cell: the auxiliary cell's variables, and for each gate the projection
  of the auxiliary hidden vector through an embedding of \<open>embedding_dim\<close> entries to a
  scaling vector of \<open>num_units\<close> entries.
\<close>

record gate_proj =
  embed_w :: mat
  embed_b :: vec
  scale_w :: mat

record cell_vars =
  main_vars :: lstm_vars
  aux_vars :: lstm_vars
  proj_i :: gate_proj
  proj_f :: gate_proj
  proj_o :: gate_proj
  proj_g :: gate_proj

record cell_state =
  main :: lstm_state
  aux :: lstm_state

definition gate_scaling :: "nat \<Rightarrow> nat \<Rightarrow> gate_proj \<Rightarrow> vec \<Rightarrow> vec" where
  \<comment> \<open>Modelled from the spec: section 4.2 step 3 (\<^verbatim>\<open>cells.py\<close> is missing): the
      scaling vector of one gate, an affine map of the auxiliary hidden vector into the
      embedding and a linear map from there to \<open>n\<close> entries.\<close>
  "gate_scaling n e q h_hyper =
     vecmat n (vadd (vecmat e h_hyper (embed_w q)) (embed_b q)) (scale_w q)"

definition hyper_scaling :: "hyper_args \<Rightarrow> cell_vars \<Rightarrow> vec \<Rightarrow> vec \<times> vec \<times> vec \<times> vec" where
  \<comment> \<open>Modelled from the spec: section 4.2 step 3 (\<^verbatim>\<open>cells.py\<close> is missing): the four
      scaling vectors, in the order of the gate blocks.\<close>
  "hyper_scaling a p h_hyper =
     (gate_scaling (num_units a) (embedding_dim a) (proj_i p) h_hyper,
      gate_scaling (num_units a) (embedding_dim a) (proj_f p) h_hyper,
      gate_scaling (num_units a) (embedding_dim a) (proj_o p) h_hyper,
      gate_scaling (num_units a) (embedding_dim a) (proj_g p) h_hyper)"

definition modulate :: "vec \<Rightarrow> vec \<Rightarrow> vec \<Rightarrow> vec" where
  \<comment> \<open>Modelled from the spec: section 4.2 step 4 (\<^verbatim>\<open>cells.py\<close> is missing): one block
      of the linear part times (1 + its scaling vector), and then the bias.\<close>
  "modulate z s b = vadd (vmul z (map (\<lambda>a. 1 + a) s)) b"

definition hyper_preact ::
  "nat \<Rightarrow> lstm_vars \<Rightarrow> vec \<times> vec \<times> vec \<times> vec \<Rightarrow> vec \<Rightarrow> vec \<Rightarrow> vec \<times> vec \<times> vec \<times> vec" where
  \<comment> \<open>Modelled from the spec: section 4.2 step 4 (\<^verbatim>\<open>cells.py\<close> is missing): the main
      cell's pre-activation blocks, each rescaled before its bias is added.\<close>
  "hyper_preact n p sc x h =
     (case sc of (si, sf, so, sg) \<Rightarrow>
       let z = vecmat (4 * n) (x @ h) (kernel p) in
         (modulate (block n 0 z) si (block n 0 (bias p)),
          modulate (block n 1 z) sf (block n 1 (bias p)),
          modulate (block n 2 z) so (block n 2 (bias p)),
          modulate (block n 3 z) sg (block n 3 (bias p))))"

definition hyper_aux_step :: "hyper_args \<Rightarrow> cell_vars \<Rightarrow> noise \<Rightarrow> cell_state \<Rightarrow> vec \<Rightarrow> lstm_state" where
  \<comment> \<open>Modelled from the spec: section 4.2 steps 1 and 2 (\<^verbatim>\<open>cells.py\<close> is missing): the
      auxiliary cell reads the main input joined with the main cell's previous hidden
      vector and makes one standard transition.\<close>
  "hyper_aux_step a p u_aux s x =
     snd (CustomLSTMCell_call (num_units_hyper a) (layer_norm a) (dropout_keep_prob a)
            (aux_vars p) u_aux (aux s) (x @ hidden (main s)))"

definition HyperLSTMCell_call ::
  "hyper_args \<Rightarrow> cell_vars \<Rightarrow> noise \<Rightarrow> noise \<Rightarrow> cell_state \<Rightarrow> vec \<Rightarrow> vec \<times> cell_state" where
  \<comment> \<open>Modelled from the spec: section 4.2 (\<^verbatim>\<open>cells.py\<close> is missing): one transition of
      the hypernetwork cell; \<open>u\<close> feeds the main cell's recurrent dropout and \<open>u_aux\<close> the
      auxiliary cell's. The output is the main cell's new hidden vector.\<close>
  "HyperLSTMCell_call a p u u_aux s x =
     (let aux' = hyper_aux_step a p u_aux s x;
          pre = hyper_preact (num_units a) (main_vars p)
                  (hyper_scaling a p (hidden aux')) x (hidden (main s));
          (out, main') = lstm_update (layer_norm a) (dropout_keep_prob a)
                            (main_vars p) u (memory (main s)) pre
      in (out, \<lparr>main = main', aux = aux'\<rparr>))"

section \<open>Building the model\<close>

text \<open>
  \<^verbatim>\<open>LSTMLanguageModel.__init__\<close> reads the configuration dictionary with
  \<^verbatim>\<open>self._config[key]\<close>, which raises \<^verbatim>\<open>KeyError\<close> on a missing key. The values are
  tensor dimensions. Sessions and the restoring of a saved model are outside the embedding.
\<close>

datatype error = KeyError string | ValueError | InvalidArgumentError

definition getitem :: "(string \<rightharpoonup> nat) \<Rightarrow> string \<Rightarrow> error + nat" where
  "getitem d k = (case d k of None \<Rightarrow> Inl (KeyError k) | Some v \<Rightarrow> Inr v)"

definition bind :: "error + 'a \<Rightarrow> ('a \<Rightarrow> error + 'b) \<Rightarrow> error + 'b" where
  "bind r f = (case r of Inl e \<Rightarrow> Inl e | Inr v \<Rightarrow> f v)"

text \<open>The cell class held in \<^verbatim>\<open>self._LSTMCell\<close>, with the arguments held in \<^verbatim>\<open>self._params\<close>.\<close>

datatype cell_ctor = CustomLSTMCell lstm_args | HyperLSTMCell hyper_args

record model =
  config :: "string \<rightharpoonup> nat"
  lr :: real
  clip :: "real option"
  batch_norm_decay :: "real option"
  keep_prob :: real
  weight_decay :: real
  LSTMCell :: cell_ctor
  num_steps :: nat
  vocab_size :: nat
  embedding_size :: nat
  n_hidden :: nat

definition init_cell :: "(string \<rightharpoonup> nat) \<Rightarrow> string option \<Rightarrow> bool \<Rightarrow> error + cell_ctor" where
  \<comment> \<open>Lines 75 to 82 of \<^verbatim>\<open>model.py\<close>.\<close>
  "init_cell cfg type_of_lstm lnorm =
     (if type_of_lstm = Some ''hypernets'' then
        bind (getitem cfg ''n_hidden'') (\<lambda>n.
        bind (getitem cfg ''n_hidden_hyper'') (\<lambda>nh.
        bind (getitem cfg ''n_embedding_hyper'') (\<lambda>ne.
          Inr (HyperLSTMCell \<lparr>num_units = n, layer_norm = lnorm, dropout_keep_prob = None,
                 num_units_hyper = nh, embedding_dim = ne\<rparr>))))
      else
        bind (getitem cfg ''n_hidden'') (\<lambda>n.
          Inr (CustomLSTMCell \<lparr>num_units = n, layer_norm = lnorm, dropout_keep_prob = None\<rparr>)))"

definition build_model ::
  "(string \<rightharpoonup> nat) \<Rightarrow> real \<Rightarrow> real option \<Rightarrow> real option \<Rightarrow> real \<Rightarrow> real \<Rightarrow> cell_ctor
     \<Rightarrow> error + model" where
  \<comment> \<open>The dictionary reads of \<^verbatim>\<open>_build_model\<close>, in the order of lines 96, 106 and 135.
      With no step to unroll, the list that line 134 stacks is empty and \<^verbatim>\<open>tf.stack\<close> raises
      \<^verbatim>\<open>ValueError\<close>.\<close>
  "build_model cfg rate gclip bn_decay kp wd cell =
     bind (getitem cfg ''num_steps'') (\<lambda>t.
     bind (getitem cfg ''vocab_size'') (\<lambda>v.
     bind (getitem cfg ''embedding_size'') (\<lambda>e.
       if t = 0 then Inl ValueError
       else
         bind (getitem cfg ''n_hidden'') (\<lambda>n.
           Inr \<lparr>config = cfg, lr = rate, clip = gclip, batch_norm_decay = bn_decay,
                keep_prob = kp, weight_decay = wd, LSTMCell = cell, num_steps = t,
                vocab_size = v, embedding_size = e, n_hidden = n\<rparr>))))"

definition LSTMLanguageModel_init ::
  "(string \<rightharpoonup> nat) \<Rightarrow> string option \<Rightarrow> real \<Rightarrow> real option \<Rightarrow> real option \<Rightarrow> real \<Rightarrow> real
     \<Rightarrow> bool \<Rightarrow> error + model" where
  "LSTMLanguageModel_init cfg type_of_lstm learning_rate gradient_clip batch_norm kp wd lnorm =
     bind (init_cell cfg type_of_lstm lnorm)
       (\<lambda>cell. build_model cfg learning_rate gradient_clip batch_norm kp wd cell)"

definition required_keys :: "string option \<Rightarrow> string list" where
  "required_keys type_of_lstm =
     [''num_steps'', ''vocab_size'', ''embedding_size'', ''n_hidden'']
     @ (if type_of_lstm = Some ''hypernets'' then [''n_hidden_hyper'', ''n_embedding_hyper'']
        else [])"

section \<open>The graph\<close>

text \<open>
  What a run is fed: the two token placeholders, and the two placeholders with a default
  (\<^verbatim>\<open>is_train\<close> is \<^verbatim>\<open>False\<close> and \<^verbatim>\<open>lr_decay\<close> is 1.0 when not fed).
\<close>

record feed =
  inputs :: "int list list"
  targets :: "int list list"
  is_train :: "bool option"
  lr_decay :: "real option"

definition is_train_of :: "feed \<Rightarrow> bool" where
  "is_train_of fd = (case is_train fd of None \<Rightarrow> False | Some b \<Rightarrow> b)"

definition lr_decay_of :: "feed \<Rightarrow> real" where
  "lr_decay_of fd = (case lr_decay fd of None \<Rightarrow> 1 | Some a \<Rightarrow> a)"

text \<open>Lines 100 to 102: the three \<^verbatim>\<open>tf.where\<close> switches on the training flag.\<close>

definition keep_prob_t :: "model \<Rightarrow> bool \<Rightarrow> real" where
  "keep_prob_t m tr = (if tr then keep_prob m else 1)"

definition keep_prob_r :: "model \<Rightarrow> bool \<Rightarrow> real" where
  "keep_prob_r m tr = (if tr then keep_prob m else 1)"

definition weight_decay_t :: "model \<Rightarrow> bool \<Rightarrow> real" where
  "weight_decay_t m tr = (if tr then weight_decay m else 0)"

text \<open>
  The variables of the graph. \<open>fc_bias\<close> exists only when the projection is built with a
  bias, and the batch normalisation's variables only when a decay is configured; the graph
  reads neither otherwise.
\<close>

record bn_vars =
  bn_beta :: vec
  moving_mean :: vec
  moving_variance :: vec

record variables =
  embedding :: mat
  cell_0 :: cell_vars
  cell_1 :: cell_vars
  fc_weight :: mat
  fc_bias :: vec
  bn :: bn_vars

text \<open>
  The random draws of one run: for the dropout of the embedded inputs (sequence, step),
  for the recurrent dropout of the main and of the auxiliary cell (layer, step, sequence)
  and for the dropout before the projection (row).
\<close>

record draws =
  emb_noise :: "nat \<Rightarrow> nat \<Rightarrow> noise"
  rec_noise :: "nat \<Rightarrow> nat \<Rightarrow> nat \<Rightarrow> noise"
  aux_noise :: "nat \<Rightarrow> nat \<Rightarrow> nat \<Rightarrow> noise"
  fc_noise :: "nat \<Rightarrow> noise"

definition valid_draws :: "draws \<Rightarrow> bool" where
  "valid_draws dr =
     ((\<forall>b t. uniform01 (emb_noise dr b t)) \<and> (\<forall>i t b. uniform01 (rec_noise dr i t b))
      \<and> (\<forall>i t b. uniform01 (aux_noise dr i t b)) \<and> (\<forall>r. uniform01 (fc_noise dr r)))"

definition embed :: "variables \<Rightarrow> nat \<Rightarrow> int list list \<Rightarrow> error + real list list list" where
  \<comment> \<open>Lines 96 and 107: a fed batch has rows of \<^verbatim>\<open>num_steps\<close> tokens, and the lookup
      (placed on the CPU) refuses a token outside the table.\<close>
  "embed vs t ids =
     (if \<not> list_all (\<lambda>row. length row = t) ids then Inl ValueError
      else if \<not> list_all (list_all (\<lambda>k. 0 \<le> k \<and> nat k < length (embedding vs))) ids
        then Inl InvalidArgumentError
      else Inr (map (map (\<lambda>k. embedding vs ! nat k)) ids))"

definition dropout_rows :: "mat \<Rightarrow> real \<Rightarrow> (nat \<Rightarrow> noise) \<Rightarrow> mat" where
  "dropout_rows x kp u = map (\<lambda>(r, v). dropout v kp (u r)) (zip [0..<length x] x)"

definition dropout_seqs :: "real list list list \<Rightarrow> real \<Rightarrow> (nat \<Rightarrow> nat \<Rightarrow> noise) \<Rightarrow> real list list list" where
  "dropout_seqs x kp u = map (\<lambda>(b, s). dropout_rows s kp (u b)) (zip [0..<length x] x)"

fun set_dropout :: "cell_ctor \<Rightarrow> real \<Rightarrow> cell_ctor" where
  "set_dropout (CustomLSTMCell a) kp = CustomLSTMCell (a\<lparr>dropout_keep_prob := Some kp\<rparr>)"
| "set_dropout (HyperLSTMCell a) kp = HyperLSTMCell (a\<lparr>dropout_keep_prob := Some kp\<rparr>)"

definition build_cells :: "model \<Rightarrow> real \<Rightarrow> cell_ctor list" where
  \<comment> \<open>Lines 114 to 118: \<^verbatim>\<open>for i in range(1, 3)\<close>.\<close>
  "build_cells m kp = map (\<lambda>i. set_dropout (LSTMCell m) kp) [1..<3]"

fun zero_state :: "cell_ctor \<Rightarrow> cell_state" where
  \<comment> \<open>Modelled from the spec: section 3 (the state sizes are declared in \<^verbatim>\<open>cells.py\<close>,
      which is missing): a pair (h, c) of size \<^verbatim>\<open>n_hidden\<close>, and for the hypernetwork
      cell also a pair of size \<^verbatim>\<open>n_hidden_hyper\<close>; the state at step 0 is zeros.\<close>
  "zero_state (CustomLSTMCell a) =
     \<lparr>main = \<lparr>hidden = zeros (num_units a), memory = zeros (num_units a)\<rparr>,
      aux = \<lparr>hidden = zeros 0, memory = zeros 0\<rparr>\<rparr>"
| "zero_state (HyperLSTMCell a) =
     \<lparr>main = \<lparr>hidden = zeros (num_units a), memory = zeros (num_units a)\<rparr>,
      aux = \<lparr>hidden = zeros (num_units_hyper a), memory = zeros (num_units_hyper a)\<rparr>\<rparr>"

definition MultiRNNCell_zero_state :: "cell_ctor list \<Rightarrow> nat \<Rightarrow> cell_state list list" where
  \<comment> \<open>Line 122: for each layer, the state of each sequence of the batch.\<close>
  "MultiRNNCell_zero_state cells batch_size = map (\<lambda>c. replicate batch_size (zero_state c)) cells"

text \<open>
  One cell on one sequence. The standard cell has no auxiliary state: the auxiliary
  component of its state is empty and stays as it is.
\<close>

fun cell_call :: "cell_ctor \<Rightarrow> cell_vars \<Rightarrow> noise \<Rightarrow> noise \<Rightarrow> cell_state \<Rightarrow> vec \<Rightarrow> vec \<times> cell_state" where
  "cell_call (CustomLSTMCell a) p u ua s x =
     (let (out, s') = CustomLSTMCell_call (num_units a) (layer_norm a) (dropout_keep_prob a)
                        (main_vars p) u (main s) x
      in (out, s\<lparr>main := s'\<rparr>))"
| "cell_call (HyperLSTMCell a) p u ua s x = HyperLSTMCell_call a p u ua s x"

definition layer_call ::
  "cell_ctor \<Rightarrow> cell_vars \<Rightarrow> (nat \<Rightarrow> noise) \<Rightarrow> (nat \<Rightarrow> noise) \<Rightarrow> cell_state list \<Rightarrow> vec list
     \<Rightarrow> vec list \<times> cell_state list" where
  "layer_call c p u ua ss xs =
     (let r = map (\<lambda>(b, s, x). cell_call c p (u b) (ua b) s x) (zip [0..<length xs] (zip ss xs))
      in (map fst r, map snd r))"

text \<open>
  \<^verbatim>\<open>MultiRNNCell\<close>: the output of a layer is the input of the next. The state tuple has
  one entry for each cell, so the layers are given as (cell, variables, state) triples;
  \<open>i\<close> counts the layers for the draws.
\<close>

fun MultiRNNCell_call ::
  "(cell_ctor \<times> cell_vars \<times> cell_state list) list \<Rightarrow> nat \<Rightarrow> (nat \<Rightarrow> nat \<Rightarrow> noise)
     \<Rightarrow> (nat \<Rightarrow> nat \<Rightarrow> noise) \<Rightarrow> vec list \<Rightarrow> vec list \<times> cell_state list list" where
  "MultiRNNCell_call [] i u ua xs = (xs, [])"
| "MultiRNNCell_call ((c, p, ss) # ls) i u ua xs =
     (let (ys, ss') = layer_call c p (u i) (ua i) ss xs;
          (out, rest) = MultiRNNCell_call ls (Suc i) u ua ys
      in (out, ss' # rest))"

text \<open>Lines 123 to 129: the unrolling over the time steps, the variables shared.\<close>

fun unroll ::
  "cell_ctor list \<Rightarrow> cell_vars list \<Rightarrow> draws \<Rightarrow> nat list \<Rightarrow> cell_state list list
     \<Rightarrow> real list list list \<Rightarrow> vec list list \<times> cell_state list list" where
  "unroll cells ps dr [] state x = ([], state)"
| "unroll cells ps dr (t # ts) state x =
     (let (cell_output, state') =
            MultiRNNCell_call (zip cells (zip ps state)) 0
              (\<lambda>i. rec_noise dr i t) (\<lambda>i. aux_noise dr i t) (map (\<lambda>s. s ! t) x);
          (outputs, final) = unroll cells ps dr ts state' x
      in (cell_output # outputs, final))"

definition full_connected :: "variables \<Rightarrow> mat \<Rightarrow> nat \<times> nat \<Rightarrow> bool \<Rightarrow> mat" where
  \<comment> \<open>Lines 19 to 32, in the scope \<^verbatim>\<open>fc\<close>: \<^verbatim>\<open>tf.add\<close> adds the bias to every row.\<close>
  "full_connected vs x weight_shape use_bias =
     (let y = matmul (snd weight_shape) x (fc_weight vs) in
      if use_bias then map (\<lambda>row. vadd row (fc_bias vs)) y else y)"

text \<open>The variables a call of \<^verbatim>\<open>_full_connected\<close> creates, with their initializers.\<close>

datatype initializer = XavierInit nat | ConstantInit vec

record var_decl =
  var_name :: string
  var_shape :: "nat list"
  var_init :: initializer

definition full_connected_variables :: "string \<Rightarrow> nat \<times> nat \<Rightarrow> bool \<Rightarrow> var_decl list" where
  \<comment> \<open>Lines 26 and 29: the bias is created from the initial value
      \<^verbatim>\<open>[0.0] * weight_shape[-1]\<close>.\<close>
  "full_connected_variables scope weight_shape use_bias =
     \<lparr>var_name = scope @ ''/weight'', var_shape = [fst weight_shape, snd weight_shape],
      var_init = XavierInit 0\<rparr>
     # (if use_bias then
          [\<lparr>var_name = scope @ ''/bias'', var_shape = [snd weight_shape],
            var_init = ConstantInit (replicate (snd weight_shape) 0)\<rparr>]
        else [])"

text \<open>
  \<^verbatim>\<open>tf.contrib.layers.batch_norm\<close> with its defaults (a shift \<open>beta\<close>, no scale, epsilon
  0.001) and \<^verbatim>\<open>updates_collections=None\<close>: in training the statistics are those of the
  batch, column by column, and the moving averages are updated in place; otherwise the
  moving averages are used. The rows are normalised with the variance of the batch as a
  population; the moving variance moves towards that variance with Bessel's correction
  (times \<open>n / max (n - 1) 1\<close> for \<open>n\<close> rows), as the library's fused kernel computes it. The
  library's unfused path, which older versions take, moves it towards the population
  variance instead.
\<close>

definition bn_apply :: "vec \<Rightarrow> vec \<Rightarrow> vec \<Rightarrow> mat \<Rightarrow> mat" where
  "bn_apply mu var b x =
     map (\<lambda>row. vadd (map (\<lambda>(a, m, v). (a - m) / sqrt (v + 0.001)) (zip row (zip mu var))) b) x"

definition moving_average :: "real \<Rightarrow> vec \<Rightarrow> vec \<Rightarrow> vec" where
  "moving_average decay old new = map2 (\<lambda>a b. a - (1 - decay) * (a - b)) old new"

definition bessel :: "nat \<Rightarrow> real \<Rightarrow> real" where
  "bessel n v = v * (real n / real (max (n - 1) 1))"

definition batch_norm :: "mat \<Rightarrow> real \<Rightarrow> bool \<Rightarrow> bn_vars \<Rightarrow> mat \<times> bn_vars" where
  "batch_norm x decay is_training p =
     (if is_training then
        let mu = map mean (transpose x); var = map variance (transpose x) in
          (bn_apply mu var (bn_beta p) x,
           p\<lparr>moving_mean := moving_average decay (moving_mean p) mu,
             moving_variance :=
               moving_average decay (moving_variance p) (map (bessel (length x)) var)\<rparr>)
      else (bn_apply (moving_mean p) (moving_variance p) (bn_beta p) x, p))"

definition logit_layer :: "model \<Rightarrow> variables \<Rightarrow> bool \<Rightarrow> mat \<Rightarrow> mat \<times> bn_vars" where
  \<comment> \<open>Lines 142 to 148.\<close>
  "logit_layer m vs tr layer =
     (let weight = (n_hidden m, vocab_size m) in
      case batch_norm_decay m of
        Some d \<Rightarrow> batch_norm (full_connected vs layer weight False) d tr (bn vs)
      | None \<Rightarrow> (full_connected vs layer weight True, bn vs))"

definition logit_variables :: "model \<Rightarrow> var_decl list" where
  \<comment> \<open>The variables that line 144 or line 148 creates.\<close>
  "logit_variables m =
     full_connected_variables ''fc'' (n_hidden m, vocab_size m) (batch_norm_decay m = None)"

definition softmax :: "vec \<Rightarrow> vec" where
  "softmax z = map (\<lambda>a. exp a / sum_list (map exp z)) z"

definition graph ::
  "model \<Rightarrow> real \<Rightarrow> real \<Rightarrow> bool \<Rightarrow> variables \<Rightarrow> int list list \<Rightarrow> draws
     \<Rightarrow> error + real list list list \<times> bn_vars" where
  \<comment> \<open>Lines 104 to 150, from the fed tokens to the logits of shape (batch, step,
      vocabulary) and the batch normalisation's variables after the run. \<open>kp\<close> and \<open>kpr\<close>
      are the two keep-probabilities of lines 100 and 101. The two reshapes merge and split
      the batch and step axes.\<close>
  "graph m kp kpr tr vs ids dr =
     bind (embed vs (num_steps m) ids) (\<lambda>emb.
       let batch_size = length emb;
           x = dropout_seqs emb kp (emb_noise dr);
           cells = build_cells m kpr;
           initial_state = MultiRNNCell_zero_state cells batch_size;
           (outputs, final_state) =
             unroll cells [cell_0 vs, cell_1 vs] dr [0..<num_steps m] initial_state x;
           rows = concat (transpose outputs);
           layer = dropout_rows rows kp (fc_noise dr);
           (logit, bn') = logit_layer m vs tr layer
       in Inr (map (\<lambda>b. take (num_steps m) (drop (b * num_steps m) logit)) [0..<batch_size],
               bn'))"

definition forward :: "model \<Rightarrow> variables \<Rightarrow> feed \<Rightarrow> draws \<Rightarrow> error + real list list list \<times> bn_vars" where
  "forward m vs fd dr =
     graph m (keep_prob_t m (is_train_of fd)) (keep_prob_r m (is_train_of fd)) (is_train_of fd)
       vs (inputs fd) dr"

definition prediction :: "model \<Rightarrow> variables \<Rightarrow> feed \<Rightarrow> draws \<Rightarrow> error + real list list list" where
  \<comment> \<open>Line 152.\<close>
  "prediction m vs fd dr = bind (forward m vs fd dr) (\<lambda>(logit, bn'). Inr (map (map softmax) logit))"

section \<open>Loss and training step\<close>

text \<open>
  \<^verbatim>\<open>tf.trainable_variables()\<close> in creation order, each variable flattened. Which variables
  a cell creates is not in \<^verbatim>\<open>model.py\<close>; sections 3 and 4.1 of the specification name the
  weights, and say that the normalisation parameters exist only with layer normalisation.
\<close>

definition ln_trainables :: "ln_vars \<Rightarrow> vec list" where
  \<comment> \<open>Modelled from the spec: section 4.1 step 2 (\<^verbatim>\<open>cells.py\<close> is missing): the learned
      scale and shift of one normalisation.\<close>
  "ln_trainables p = [ln_gamma p, ln_beta p]"

definition lstm_trainables :: "bool \<Rightarrow> lstm_vars \<Rightarrow> vec list" where
  \<comment> \<open>Modelled from the spec: sections 3 and 4.1 (\<^verbatim>\<open>cells.py\<close> is missing): the weights
      of one standard cell.\<close>
  "lstm_trainables lnorm p =
     [concat (kernel p), bias p]
     @ (if lnorm then
          concat (map ln_trainables [norm_i p, norm_f p, norm_o p, norm_g p, norm_c p])
        else [])"

definition proj_trainables :: "gate_proj \<Rightarrow> vec list" where
  \<comment> \<open>Modelled from the spec: section 3 (\<^verbatim>\<open>cells.py\<close> is missing): the weights of one
      gate's projection.\<close>
  "proj_trainables q = [concat (embed_w q), embed_b q, concat (scale_w q)]"

fun cell_trainables :: "cell_ctor \<Rightarrow> cell_vars \<Rightarrow> vec list" where
  \<comment> \<open>Modelled from the spec: section 3 (\<^verbatim>\<open>cells.py\<close> is missing): the hypernetwork
      cell has, beside the main weights, the auxiliary cell's weights and the projections.\<close>
  "cell_trainables (CustomLSTMCell a) p = lstm_trainables (layer_norm a) (main_vars p)"
| "cell_trainables (HyperLSTMCell a) p =
     lstm_trainables (layer_norm a) (main_vars p) @ lstm_trainables (layer_norm a) (aux_vars p)
     @ proj_trainables (proj_i p) @ proj_trainables (proj_f p)
     @ proj_trainables (proj_o p) @ proj_trainables (proj_g p)"

definition trainable_variables :: "model \<Rightarrow> variables \<Rightarrow> vec list" where
  "trainable_variables m vs =
     [concat (embedding vs)]
     @ cell_trainables (LSTMCell m) (cell_0 vs) @ cell_trainables (LSTMCell m) (cell_1 vs)
     @ [concat (fc_weight vs)]
     @ (case batch_norm_decay m of None \<Rightarrow> [fc_bias vs] | Some d \<Rightarrow> [bn_beta (bn vs)])"

definition l2_loss :: "vec \<Rightarrow> real" where
  \<comment> \<open>\<^verbatim>\<open>tf.nn.l2_loss\<close>: half the sum of the squares.\<close>
  "l2_loss v = sum_list (map (\<lambda>a. a\<^sup>2) v) / 2"

definition sparse_softmax_cross_entropy :: "vec \<Rightarrow> int \<Rightarrow> real" where
  \<comment> \<open>The negated logarithm of the softmax probability of the label.\<close>
  "sparse_softmax_cross_entropy z y = ln (sum_list (map exp z)) - z ! nat y"

text \<open>
  \<^verbatim>\<open>tf.contrib.seq2seq.sequence_loss\<close> with \<^verbatim>\<open>average_across_timesteps=False\<close> and
  \<^verbatim>\<open>average_across_batch=True\<close>: the weighted cross-entropies are summed over the batch
  axis and divided by the sum of the weights over the batch axis, which leaves one number
  for each of the \<open>t\<close> steps. The library adds \<open>1e-12\<close> to the divisor against a sum of
  weights of zero; beside a batch size of at least one that is below the resolution of
  float32, where the divisor stays the batch size, and the model divides by the sum of
  the weights.
\<close>

definition reduce_sum_axis0 :: "nat \<Rightarrow> mat \<Rightarrow> vec" where
  "reduce_sum_axis0 t x = foldr vadd x (zeros t)"

definition sequence_loss :: "nat \<Rightarrow> real list list list \<Rightarrow> int list list \<Rightarrow> mat \<Rightarrow> vec" where
  "sequence_loss t logits tg weights =
     (let crossent =
            map (\<lambda>(zs, ys, ws).
                   map (\<lambda>(z, y, w). sparse_softmax_cross_entropy z y * w) (zip zs (zip ys ws)))
              (zip logits (zip tg weights));
          total_size = reduce_sum_axis0 t weights
      in map2 (/) (reduce_sum_axis0 t crossent) total_size)"

definition check_targets :: "model \<Rightarrow> nat \<Rightarrow> int list list \<Rightarrow> error + unit" where
  \<comment> \<open>Line 97, and the labels the cross-entropy accepts: one row of \<^verbatim>\<open>num_steps\<close> labels
      for each sequence, each label a vocabulary entry. A row of another length does not
      fit the placeholder and the feed is refused with \<^verbatim>\<open>ValueError\<close>; a number of rows other
      than the batch size of the logits, or a label outside the vocabulary, is found by the
      cross-entropy when it runs, which raises \<^verbatim>\<open>InvalidArgumentError\<close>.\<close>
  "check_targets m batch_size tg =
     (if \<not> list_all (\<lambda>row. length row = num_steps m) tg
        then Inl ValueError
      else if length tg \<noteq> batch_size
                \<or> \<not> list_all (list_all (\<lambda>k. 0 \<le> k \<and> nat k < vocab_size m)) tg
        then Inl InvalidArgumentError
      else Inr ())"

definition loss :: "model \<Rightarrow> variables \<Rightarrow> feed \<Rightarrow> draws \<Rightarrow> error + real" where
  \<comment> \<open>Lines 156 to 165.\<close>
  "loss m vs fd dr =
     bind (forward m vs fd dr) (\<lambda>(logit, bn').
     bind (check_targets m (length logit) (targets fd)) (\<lambda>_.
       let seq = sequence_loss (num_steps m) logit (targets fd)
                   (replicate (length logit) (replicate (num_steps m) 1));
           t_vars = trainable_variables m vs;
           l2 = sum_list (map l2_loss t_vars)
       in Inr (sum_list seq + weight_decay_t m (is_train_of fd) * l2)))"

text \<open>
  \<^verbatim>\<open>tf.clip_by_global_norm\<close>, as the library computes it: every tensor of the list times
  \<open>clip_norm * minimum (1 / global_norm, 1 / clip_norm)\<close>, where the global norm is the
  square root of the sum of all squares. In floating point \<open>1 / 0\<close> is infinite, so that at
  a global norm of 0 the minimum is \<open>1 / clip_norm\<close>; the model writes that case out. The
  library documents the threshold as a number above 0, and there the factor is the
  documented \<open>clip_norm / max (global_norm, clip_norm)\<close>. (At a threshold of 0 with a global
  norm of 0 the floating-point product is not a number; the model's factor is 0 there.)
\<close>

definition global_norm :: "vec list \<Rightarrow> real" where
  "global_norm ts = sqrt (sum_list (map (\<lambda>t. sum_list (map (\<lambda>a. a\<^sup>2) t)) ts))"

definition clip_scale :: "real \<Rightarrow> real \<Rightarrow> real" where
  "clip_scale use_norm clip_norm =
     clip_norm * (if use_norm = 0 then 1 / clip_norm else min (1 / use_norm) (1 / clip_norm))"

definition clip_by_global_norm :: "vec list \<Rightarrow> real \<Rightarrow> vec list" where
  "clip_by_global_norm ts clip_norm =
     map (map (\<lambda>a. a * clip_scale (global_norm ts) clip_norm)) ts"

definition apply_gradients :: "real \<Rightarrow> (vec \<times> vec) list \<Rightarrow> vec list" where
  \<comment> \<open>\<^verbatim>\<open>GradientDescentOptimizer(rate).apply_gradients\<close> on (gradient, variable) pairs: the
      new value of each variable.\<close>
  "apply_gradients rate gv = map (\<lambda>(g, v). map2 (\<lambda>a d. a - rate * d) v g) gv"

text \<open>
  Differentiation is the library's: \<open>G f vs\<close> stands for \<^verbatim>\<open>tf.gradients\<close> of the scalar \<open>f\<close>
  at the variables \<open>vs\<close>, one gradient for each trainable variable. The training step
  yields the values it assigns to the trainable variables.
\<close>

type_synonym gradients = "(variables \<Rightarrow> error + real) \<Rightarrow> variables \<Rightarrow> vec list"

definition train_op :: "model \<Rightarrow> gradients \<Rightarrow> variables \<Rightarrow> feed \<Rightarrow> draws \<Rightarrow> error + vec list" where
  \<comment> \<open>Lines 168 to 176.\<close>
  "train_op m G vs fd dr =
     bind (loss m vs fd dr) (\<lambda>_.
       let grads = G (\<lambda>w. loss m w fd dr) vs;
           t_vars = trainable_variables m vs
       in case clip m of
            Some c \<Rightarrow> Inr (apply_gradients (lr m) (zip (clip_by_global_norm grads c) t_vars))
          | None \<Rightarrow> Inr (apply_gradients (lr m) (zip grads t_vars)))"

text \<open>
  The loss as the specification words it: the cross-entropy of each step against the
  target token, averaged over the batch and summed over the steps, plus the weight-decay
  coefficient (0 outside training) times the L2 penalties of the trainable variables.
\<close>

definition spec_loss :: "model \<Rightarrow> variables \<Rightarrow> bool \<Rightarrow> real list list list \<Rightarrow> int list list \<Rightarrow> real" where
  "spec_loss m vs tr logit tg =
     (\<Sum>t<num_steps m.
        (\<Sum>b<length logit. sparse_softmax_cross_entropy (logit ! b ! t) (tg ! b ! t))
        / real (length logit))
     + (if tr then weight_decay m else 0) * (\<Sum>v\<leftarrow>trainable_variables m vs. l2_loss v)"

section \<open>Predicates for the stack of cells\<close>

datatype cell_class = CustomLSTMCell_class | HyperLSTMCell_class

fun class_of :: "cell_ctor \<Rightarrow> cell_class" where
  "class_of (CustomLSTMCell a) = CustomLSTMCell_class"
| "class_of (HyperLSTMCell a) = HyperLSTMCell_class"

fun cell_keep_prob :: "cell_ctor \<Rightarrow> real option" where
  "cell_keep_prob (CustomLSTMCell a) = dropout_keep_prob a"
| "cell_keep_prob (HyperLSTMCell a) = dropout_keep_prob a"

definition all_zero :: "vec \<Rightarrow> bool" where
  "all_zero v = list_all (\<lambda>a. a = 0) v"

section \<open>A small instance\<close>

text \<open>
  One step, a vocabulary of two tokens, one embedding entry and one hidden unit: the
  instance the general theorems are run on.
\<close>

definition ex_config :: "string \<rightharpoonup> nat" where
  "ex_config = [''num_steps'' \<mapsto> 1, ''vocab_size'' \<mapsto> 2, ''embedding_size'' \<mapsto> 1,
                ''n_hidden'' \<mapsto> 1]"

definition ex_hyper_config :: "string \<rightharpoonup> nat" where
  "ex_hyper_config = ex_config(''n_hidden_hyper'' \<mapsto> 3, ''n_embedding_hyper'' \<mapsto> 1)"

definition ex_hyper_model :: model where
  "ex_hyper_model =
     \<lparr>config = ex_hyper_config, lr = 1 / 10, clip = None, batch_norm_decay = None,
      keep_prob = 1, weight_decay = 1,
      LSTMCell = HyperLSTMCell \<lparr>num_units = 1, layer_norm = True, dropout_keep_prob = None,
                   num_units_hyper = 3, embedding_dim = 1\<rparr>,
      num_steps = 1, vocab_size = 2, embedding_size = 1, n_hidden = 1\<rparr>"

definition ex_ln :: ln_vars where
  "ex_ln = \<lparr>ln_gamma = [1], ln_beta = [0], ln_epsilon = 1 / 1000\<rparr>"

definition ex_lstm_vars :: "mat \<Rightarrow> vec \<Rightarrow> lstm_vars" where
  "ex_lstm_vars w b =
     \<lparr>kernel = w, bias = b, norm_i = ex_ln, norm_f = ex_ln, norm_o = ex_ln, norm_g = ex_ln,
      norm_c = ex_ln\<rparr>"

definition ex_proj :: gate_proj where
  "ex_proj = \<lparr>embed_w = [[0]], embed_b = [1], scale_w = [[0]]\<rparr>"

definition ex_cell_vars :: "mat \<Rightarrow> vec \<Rightarrow> cell_vars" where
  "ex_cell_vars w b =
     \<lparr>main_vars = ex_lstm_vars w b,
      aux_vars = ex_lstm_vars [[0, 0, 0, 0], [0, 0, 0, 0], [0, 0, 0, 0]] [0, 0, 0, 0],
      proj_i = ex_proj, proj_f = ex_proj, proj_o = ex_proj, proj_g = ex_proj\<rparr>"

definition ex_zero_kernel :: mat where
  "ex_zero_kernel = [[0, 0, 0, 0], [0, 0, 0, 0]]"

definition ex_variables :: variables where
  "ex_variables =
     \<lparr>embedding = [[1], [2]],
      cell_0 = ex_cell_vars ex_zero_kernel [0, 0, 0, 0],
      cell_1 = ex_cell_vars ex_zero_kernel [0, 0, 0, 0],
      fc_weight = [[1, 0]], fc_bias = [0, 0],
      bn = \<lparr>bn_beta = [0, 0], moving_mean = [1, 0], moving_variance = [1, 1]\<rparr>\<rparr>"

definition ex_model :: "real option \<Rightarrow> real option \<Rightarrow> real \<Rightarrow> model" where
  "ex_model gclip bn_decay kp =
     \<lparr>config = ex_config, lr = 1 / 10, clip = gclip, batch_norm_decay = bn_decay,
      keep_prob = kp, weight_decay = 1, 
      LSTMCell = CustomLSTMCell \<lparr>num_units = 1, layer_norm = False, dropout_keep_prob = None\<rparr>,
      num_steps = 1, vocab_size = 2, embedding_size = 1, n_hidden = 1\<rparr>"

definition ex_feed :: "bool option \<Rightarrow> feed" where
  "ex_feed tr = \<lparr>inputs = [[0]], targets = [[1]], is_train = tr, lr_decay = None\<rparr>"

definition const_noise :: "real \<Rightarrow> noise" where
  "const_noise a j = a"

definition ex_draws :: "real \<Rightarrow> draws" where
  "ex_draws a =
     \<lparr>emb_noise = (\<lambda>b t. const_noise a), rec_noise = (\<lambda>i t b. const_noise a),
      aux_noise = (\<lambda>i t b. const_noise a), fc_noise = (\<lambda>r. const_noise a)\<rparr>"

definition ex_hyper_args :: hyper_args where
  "ex_hyper_args =
     \<lparr>num_units = 1, layer_norm = False, dropout_keep_prob = Some 1, num_units_hyper = 1,
      embedding_dim = 1\<rparr>"

definition ex_state :: cell_state where
  "ex_state = \<lparr>main = \<lparr>hidden = [1], memory = [2]\<rparr>, aux = \<lparr>hidden = [0], memory = [0]\<rparr>\<rparr>"

definition ex_gradients :: gradients where
  "ex_gradients f vs = [[3, 0], [0, 0, 0, 0, 0, 0, 0, 0], [0, 0, 0, 0], [0, 0, 0, 0, 0, 0, 0, 0],
     [0, 0, 0, 0], [0, 4], [0, 0]]"

section \<open>Evaluating the instance\<close>

lemmas tensor_eval = zeros_def vadd_def vmul_def block_def gate_blocks_def eval_nat_numeral

lemmas cell_eval = CustomLSTMCell_call_def lstm_update_def custom_preact_def
  HyperLSTMCell_call_def hyper_aux_step_def hyper_scaling_def gate_scaling_def
  hyper_preact_def modulate_def Let_def

lemmas ex_eval = ex_hyper_args_def ex_cell_vars_def ex_lstm_vars_def ex_proj_def ex_state_def
  ex_zero_kernel_def const_noise_def

section \<open>Vectors and blocks\<close>

lemma block_vadd: "block n k (vadd u v) = vadd (block n k u) (block n k v)"
  by (simp add: block_def vadd_def take_zip drop_zip take_map drop_map)

lemma length_block_le: "length (block n k v) \<le> n"
  by (simp add: block_def)

lemma length_block: "length v = 4 * n \<Longrightarrow> k < 4 \<Longrightarrow> length (block n k v) = n"
proof -
  assume a: "length v = 4 * n" "k < 4"
  then have "k * n + n \<le> 4 * n"
    by (metis Suc_leI add.commute mult_Suc mult_le_mono1)
  then have "min (4 * n - k * n) n = n" by arith
  then show ?thesis using a by (simp add: block_def)
qed

lemma vmul_one_plus_zeros: "length z \<le> n \<Longrightarrow> vmul z (map (\<lambda>a. 1 + a) (zeros n)) = z"
  by (simp add: vmul_def zeros_def zip_replicate2 o_def)

lemma vadd_zeros_left: "length v = m \<Longrightarrow> vadd (zeros m) v = v"
  by (simp add: vadd_def zeros_def zip_replicate1 o_def)

lemma vmul_zeros_right: "length v = n \<Longrightarrow> vmul v (zeros n) = zeros n"
  by (simp add: vmul_def zeros_def zip_replicate2 map_replicate_const o_def)

lemma vecmat_zeros: "\<forall>r \<in> set w. length r = m \<Longrightarrow> vecmat m (zeros k) w = zeros m"
proof (induction w arbitrary: k)
  case Nil
  then show ?case by (cases k) (simp_all add: zeros_def)
next
  case (Cons r w)
  show ?case
  proof (cases k)
    case 0
    then show ?thesis by (simp add: zeros_def)
  next
    case (Suc j)
    have "vecmat m (zeros j) w = zeros m" using Cons by simp
    moreover have "map ((*) 0) r = map (\<lambda>_. 0) r" by simp
    then have "map ((*) 0) r = zeros m"
      using Cons.prems by (simp add: zeros_def map_replicate_const)
    ultimately show ?thesis using Suc by (simp add: zeros_def vadd_def map_replicate_const)
  qed
qed

lemma dropout_zeros: "dropout (zeros n) q u = zeros n"
  by (simp add: dropout_def zeros_def zip_replicate2 map_replicate_const o_def)

section \<open>The hypernetwork cell with a scaling of zero\<close>

lemma modulate_zeros: "modulate (block n k z) (zeros n) b = vadd (block n k z) b"
  by (simp add: modulate_def vmul_one_plus_zeros length_block_le)

lemma hyper_preact_zeros:
  "hyper_preact n p (zeros n, zeros n, zeros n, zeros n) x h = custom_preact n p x h"
  by (simp add: hyper_preact_def custom_preact_def gate_blocks_def modulate_zeros block_vadd
      Let_def)

text \<open>
  C1: when the four scaling vectors projected from the new auxiliary hidden state are all
  zero, one transition of the hypernetwork cell gives the same output and the same new main
  state (h, c) as one transition of the standard cell on the same main state, input and
  weights.
\<close>

theorem hyper_zero_scaling_is_custom:
  assumes "hyper_scaling a p (hidden (hyper_aux_step a p u_aux s x)) =
             (zeros (num_units a), zeros (num_units a), zeros (num_units a), zeros (num_units a))"
  shows "fst (HyperLSTMCell_call a p u u_aux s x) =
           fst (CustomLSTMCell_call (num_units a) (layer_norm a) (dropout_keep_prob a)
                  (main_vars p) u (main s) x)
         \<and> main (snd (HyperLSTMCell_call a p u u_aux s x)) =
           snd (CustomLSTMCell_call (num_units a) (layer_norm a) (dropout_keep_prob a)
                  (main_vars p) u (main s) x)"
  using assms
  by (simp add: HyperLSTMCell_call_def CustomLSTMCell_call_def hyper_preact_zeros Let_def
        split: prod.splits)

theorem hyper_zero_scaling_is_custom_witness:
  "hyper_scaling ex_hyper_args (ex_cell_vars [[1, 2, 3, 4], [5, 6, 7, 8]] [1, 1, 1, 1])
     (hidden (hyper_aux_step ex_hyper_args
        (ex_cell_vars [[1, 2, 3, 4], [5, 6, 7, 8]] [1, 1, 1, 1]) (const_noise 0) ex_state [1]))
     = (zeros 1, zeros 1, zeros 1, zeros 1)
   \<and> fst (HyperLSTMCell_call ex_hyper_args
        (ex_cell_vars [[1, 2, 3, 4], [5, 6, 7, 8]] [1, 1, 1, 1]) (const_noise 0) (const_noise 0)
        ex_state [1])
     = fst (CustomLSTMCell_call 1 False (Some 1)
        (ex_lstm_vars [[1, 2, 3, 4], [5, 6, 7, 8]] [1, 1, 1, 1]) (const_noise 0)
        \<lparr>hidden = [1], memory = [2]\<rparr> [1])
   \<and> main (snd (HyperLSTMCell_call ex_hyper_args
        (ex_cell_vars [[1, 2, 3, 4], [5, 6, 7, 8]] [1, 1, 1, 1]) (const_noise 0) (const_noise 0)
        ex_state [1]))
     = snd (CustomLSTMCell_call 1 False (Some 1)
        (ex_lstm_vars [[1, 2, 3, 4], [5, 6, 7, 8]] [1, 1, 1, 1]) (const_noise 0)
        \<lparr>hidden = [1], memory = [2]\<rparr> [1])"
proof -
  let ?p = "ex_cell_vars [[1, 2, 3, 4], [5, 6, 7, 8]] [1, 1, 1, 1]"
  have n: "num_units ex_hyper_args = 1" "layer_norm ex_hyper_args = False"
    "dropout_keep_prob ex_hyper_args = Some 1"
    by (simp_all add: ex_hyper_args_def)
  have m: "main_vars ?p = ex_lstm_vars [[1, 2, 3, 4], [5, 6, 7, 8]] [1, 1, 1, 1]"
    "main ex_state = \<lparr>hidden = [1], memory = [2]\<rparr>"
    by (simp_all add: ex_cell_vars_def ex_state_def)
  have h: "hyper_scaling ex_hyper_args ?p
      (hidden (hyper_aux_step ex_hyper_args ?p (const_noise 0) ex_state [1]))
      = (zeros 1, zeros 1, zeros 1, zeros 1)"
    by (simp add: tensor_eval cell_eval ex_eval dropout_def)
  from hyper_zero_scaling_is_custom
    [of ex_hyper_args ?p "const_noise 0" ex_state "[1]" "const_noise 0"]
  show ?thesis using h by (simp only: n m simp_thms)
qed

section \<open>The standard cell on the zero state\<close>

text \<open>
  C2, as amended: without layer normalisation, and with a candidate block of the bias that is
  zero, one transition of the standard cell from the all-zero state on an all-zero input
  gives the zero vector as hidden output (and as new memory). The shapes are those of a
  cell of \<open>n\<close> units: \<open>4 * n\<close> columns in the kernel and in the bias.
\<close>

theorem custom_zero_state_zero_output:
  assumes "length (bias p) = 4 * n" and "\<forall>r \<in> set (kernel p). length r = 4 * n"
    and "block n 3 (bias p) = zeros n"
  shows "CustomLSTMCell_call n False kp p u \<lparr>hidden = zeros n, memory = zeros n\<rparr> (zeros d) =
           (zeros n, \<lparr>hidden = zeros n, memory = zeros n\<rparr>)"
proof -
  have z: "vecmat (4 * n) (zeros d @ zeros n) (kernel p) = zeros (4 * n)"
    using assms(2) vecmat_zeros [of "kernel p" "4 * n" "d + n"]
    by (simp add: zeros_def replicate_add)
  have pre: "custom_preact n p (zeros d) (zeros n) =
      (block n 0 (bias p), block n 1 (bias p), block n 2 (bias p), zeros n)"
    using assms(1,3) by (simp add: custom_preact_def z vadd_zeros_left gate_blocks_def)
  have t: "map tanh (zeros n) = zeros n" by (simp add: zeros_def)
  have g: "(case kp of None \<Rightarrow> map tanh (zeros n) | Some q \<Rightarrow> dropout (map tanh (zeros n)) q u)
      = zeros n"
    by (simp add: t dropout_zeros split: option.splits)
  have l: "length (block n 0 (bias p)) = n" "length (block n (Suc 0) (bias p)) = n"
    "length (block n 2 (bias p)) = n"
    using assms(1) by (simp_all add: length_block)
  have c: "vadd (zeros n) (zeros n) = zeros n" by (simp add: vadd_def zeros_def)
  show ?thesis
    by (simp add: CustomLSTMCell_call_def pre lstm_update_def g c t l vmul_zeros_right Let_def)
qed

theorem custom_zero_state_zero_output_witness:
  "length (bias (ex_lstm_vars ex_zero_kernel [1, 2, 3, 0])) = 4 * 1
   \<and> list_all (\<lambda>r. length r = 4 * 1) (kernel (ex_lstm_vars ex_zero_kernel [1, 2, 3, 0]))
   \<and> block 1 3 (bias (ex_lstm_vars ex_zero_kernel [1, 2, 3, 0])) = zeros 1
   \<and> CustomLSTMCell_call 1 False (Some (1 / 2)) (ex_lstm_vars ex_zero_kernel [1, 2, 3, 0])
       (const_noise (3 / 4)) \<lparr>hidden = zeros 1, memory = zeros 1\<rparr> (zeros 1)
     = (zeros 1, \<lparr>hidden = zeros 1, memory = zeros 1\<rparr>)"
proof -
  let ?p = "ex_lstm_vars ex_zero_kernel [1, 2, 3, 0]"
  have a: "length (bias ?p) = 4 * 1" by (simp add: ex_lstm_vars_def)
  have b: "\<forall>r \<in> set (kernel ?p). length r = 4 * 1"
    by (simp add: ex_lstm_vars_def ex_zero_kernel_def)
  have c: "block 1 3 (bias ?p) = zeros 1" by (simp add: ex_lstm_vars_def tensor_eval)
  from custom_zero_state_zero_output [OF a b c, of "Some (1 / 2)" "const_noise (3 / 4)" 1]
  show ?thesis using a b c by (simp add: list_all_iff)
qed

text \<open>
  The claim as stated, for every parameter setting, fails: with a candidate bias of 1 the
  new hidden output is \<open>sigmoid 0 * tanh (sigmoid 0 * tanh 1)\<close>, which is not zero.
\<close>

theorem custom_zero_state_counterexample:
  "fst (CustomLSTMCell_call 1 False None (ex_lstm_vars ex_zero_kernel [0, 0, 0, 1])
          (const_noise 0) \<lparr>hidden = zeros 1, memory = zeros 1\<rparr> (zeros 1)) \<noteq> zeros 1"
  by (simp add: tensor_eval cell_eval ex_eval sigmoid_def)

section \<open>Construction\<close>

lemma getitem_Inr: "getitem cfg k = Inr v \<longleftrightarrow> cfg k = Some v"
  by (simp add: getitem_def split: option.splits)

lemma bind_Inr: "bind r f = Inr y \<longleftrightarrow> (\<exists>v. r = Inr v \<and> f v = Inr y)"
  by (cases r) (simp_all add: bind_def)

lemma init_result:
  assumes "LSTMLanguageModel_init cfg ty rate gc bnd kp wd lnorm = Inr m"
  shows "\<exists>cell t v e n. init_cell cfg ty lnorm = Inr cell \<and> cfg ''n_hidden'' = Some n
    \<and> cfg ''num_steps'' = Some t \<and> cfg ''vocab_size'' = Some v
    \<and> cfg ''embedding_size'' = Some e
    \<and> m = \<lparr>config = cfg, lr = rate, clip = gc, batch_norm_decay = bnd,
            keep_prob = kp, weight_decay = wd, LSTMCell = cell, num_steps = t,
            vocab_size = v, embedding_size = e, n_hidden = n\<rparr>"
  using assms
  by (auto simp: LSTMLanguageModel_init_def build_model_def bind_Inr getitem_Inr
      split: if_splits)

lemma init_example:
  "LSTMLanguageModel_init ex_config None (1 / 10) gc bnd kp 1 False = Inr (ex_model gc bnd kp)"
  by (simp add: LSTMLanguageModel_init_def init_cell_def build_model_def bind_def getitem_def
      ex_config_def ex_model_def)

text \<open>
  C7: when a required key is missing from the configuration (one of \<open>num_steps\<close>,
  \<open>vocab_size\<close>, \<open>embedding_size\<close>, \<open>n_hidden\<close>, and for the hypernetwork variant also
  \<open>n_hidden_hyper\<close> and \<open>n_embedding_hyper\<close>), the construction ends in the \<open>KeyError\<close> of a
  missing required key: no model is built and no default stands in for the key.
\<close>

theorem missing_key_fails_construction:
  assumes "k \<in> set (required_keys ty)" and "cfg k = None"
  shows "\<exists>k'. k' \<in> set (required_keys ty) \<and> cfg k' = None
           \<and> LSTMLanguageModel_init cfg ty rate gc bnd kp wd lnorm = Inl (KeyError k')"
  using assms
  by (auto simp: LSTMLanguageModel_init_def init_cell_def build_model_def required_keys_def
      bind_def getitem_def split: option.splits if_splits)

theorem missing_key_fails_construction_witness:
  "''n_embedding_hyper'' \<in> set (required_keys (Some ''hypernets''))
   \<and> (ex_config(''n_hidden_hyper'' \<mapsto> 1)) ''n_embedding_hyper'' = None
   \<and> LSTMLanguageModel_init (ex_config(''n_hidden_hyper'' \<mapsto> 1)) (Some ''hypernets'') (1 / 10)
        None None 1 0 False
       = Inl (KeyError ''n_embedding_hyper'')"
proof -
  have a: "''n_embedding_hyper'' \<in> set (required_keys (Some ''hypernets''))"
    by (simp add: required_keys_def)
  have b: "(ex_config(''n_hidden_hyper'' \<mapsto> 1)) ''n_embedding_hyper'' = None"
    by (simp add: ex_config_def)
  have c: "\<And>k'. k' \<in> set (required_keys (Some ''hypernets'')) \<Longrightarrow>
      (ex_config(''n_hidden_hyper'' \<mapsto> 1)) k' = None \<Longrightarrow> k' = ''n_embedding_hyper''"
    by (auto simp: required_keys_def ex_config_def split: if_splits)
  from missing_key_fails_construction
    [where k = "''n_embedding_hyper''" and ty = "Some ''hypernets''"
       and cfg = "ex_config(''n_hidden_hyper'' \<mapsto> 1)" and rate = "1 / 10" and gc = None
       and bnd = None and kp = 1 and wd = 0 and lnorm = False, OF a b]
  show ?thesis using a b c by metis
qed

section \<open>The stack of cells\<close>

lemma init_cell_class:
  assumes "init_cell cfg ty lnorm = Inr cell"
  shows "class_of cell
    = (if ty = Some ''hypernets'' then HyperLSTMCell_class else CustomLSTMCell_class)"
  using assms by (auto simp: init_cell_def bind_Inr split: if_splits)

lemma init_cell_units:
  assumes "init_cell cfg ty lnorm = Inr cell" and "cfg ''n_hidden'' = Some n"
  shows "main (zero_state (set_dropout cell q)) = \<lparr>hidden = zeros n, memory = zeros n\<rparr>"
  using assms by (auto simp: init_cell_def bind_Inr getitem_Inr split: if_splits)

lemma class_of_set_dropout: "class_of (set_dropout c q) = class_of c"
  by (cases c) simp_all

lemma zero_state_aux:
  "all_zero (hidden (aux (zero_state c))) \<and> all_zero (memory (aux (zero_state c)))"
  by (cases c) (simp_all add: all_zero_def zeros_def list_all_iff)

text \<open>
  C6: a constructed model stacks exactly two cells, both built from the one configured
  class with the same arguments (the hypernetwork cell exactly when \<open>type_of_lstm\<close> is
  \<open>hypernets\<close>), and the initial state has, for each of the two layers and each sequence of
  the batch, a main state (h, c) of zeros of size \<open>n_hidden\<close> and an auxiliary state of zeros.
\<close>

theorem two_layers_one_class_zero_state:
  assumes "LSTMLanguageModel_init cfg ty rate gc bnd kp wd lnorm = Inr m"
  shows "build_cells m q = [set_dropout (LSTMCell m) q, set_dropout (LSTMCell m) q]
    \<and> (\<forall>c \<in> set (build_cells m q).
          class_of c
            = (if ty = Some ''hypernets'' then HyperLSTMCell_class else CustomLSTMCell_class))
    \<and> length (MultiRNNCell_zero_state (build_cells m q) batch_size) = 2
    \<and> (\<forall>layer \<in> set (MultiRNNCell_zero_state (build_cells m q) batch_size).
          length layer = batch_size
          \<and> (\<forall>s \<in> set layer.
                main s = \<lparr>hidden = zeros (n_hidden m), memory = zeros (n_hidden m)\<rparr>
                \<and> all_zero (hidden (aux s)) \<and> all_zero (memory (aux s))))"
proof -
  from init_result [OF assms] obtain cell t v e n where
    c: "init_cell cfg ty lnorm = Inr cell" and n: "cfg ''n_hidden'' = Some n"
    and m: "LSTMCell m = cell" "n_hidden m = n"
    by auto
  have b: "build_cells m q = [set_dropout cell q, set_dropout cell q]"
    by (simp add: build_cells_def m upt_rec)
  show ?thesis
    using init_cell_class [OF c] init_cell_units [OF c n, of q] zero_state_aux
    by (simp add: b m MultiRNNCell_zero_state_def class_of_set_dropout)
qed

theorem two_layers_one_class_zero_state_witness:
  "LSTMLanguageModel_init ex_config None (1 / 10) None None 1 1 False
     = Inr (ex_model None None 1)
   \<and> build_cells (ex_model None None 1) (1 / 2)
     = [CustomLSTMCell \<lparr>num_units = 1, layer_norm = False, dropout_keep_prob = Some (1 / 2)\<rparr>,
        CustomLSTMCell \<lparr>num_units = 1, layer_norm = False, dropout_keep_prob = Some (1 / 2)\<rparr>]
   \<and> list_all (\<lambda>c. class_of c = CustomLSTMCell_class) (build_cells (ex_model None None 1) (1 / 2))
   \<and> MultiRNNCell_zero_state (build_cells (ex_model None None 1) (1 / 2)) 3
     = replicate 2 (replicate 3
         \<lparr>main = \<lparr>hidden = [0], memory = [0]\<rparr>, aux = \<lparr>hidden = [], memory = []\<rparr>\<rparr>)
   \<and> LSTMLanguageModel_init ex_hyper_config (Some ''hypernets'') (1 / 10) None None 1 1 True
     = Inr ex_hyper_model
   \<and> list_all (\<lambda>c. class_of c = HyperLSTMCell_class) (build_cells ex_hyper_model (1 / 2))
   \<and> MultiRNNCell_zero_state (build_cells ex_hyper_model (1 / 2)) 1
     = replicate 2
         [\<lparr>main = \<lparr>hidden = [0], memory = [0]\<rparr>,
           aux = \<lparr>hidden = [0, 0, 0], memory = [0, 0, 0]\<rparr>\<rparr>]"
proof -
  have a: "LSTMLanguageModel_init ex_config None (1 / 10) None None 1 1 False
      = Inr (ex_model None None 1)"
    by (rule init_example)
  have b: "LSTMLanguageModel_init ex_hyper_config (Some ''hypernets'') (1 / 10) None None 1 1
      True = Inr ex_hyper_model"
    by (simp add: LSTMLanguageModel_init_def init_cell_def build_model_def bind_def getitem_def
        ex_config_def ex_hyper_config_def ex_hyper_model_def)
  from two_layers_one_class_zero_state [OF a, of "1 / 2" 3]
    two_layers_one_class_zero_state [OF b, of "1 / 2" 1]
  show ?thesis using a b
    by (simp add: ex_model_def ex_hyper_model_def MultiRNNCell_zero_state_def zeros_def
        list_all_iff eval_nat_numeral)
qed

section \<open>The projection to the logits\<close>

text \<open>
  C9: with a batch-norm decay configured the logits are the batch normalisation of the
  bias-free product with the weight, and the projection creates the weight only; with
  none, the logits are the product plus the bias on every row, and the projection creates
  a bias variable whose initial value is the zero vector and which is a trainable variable.
\<close>

theorem projection_bias_iff_no_batch_norm:
  "(batch_norm_decay m = Some d \<longrightarrow>
      logit_layer m vs tr layer
        = batch_norm (matmul (vocab_size m) layer (fc_weight vs)) d tr (bn vs)
      \<and> map var_name (logit_variables m) = [''fc/weight''])
   \<and> (batch_norm_decay m = None \<longrightarrow>
      logit_layer m vs tr layer
        = (map (\<lambda>row. vadd row (fc_bias vs)) (matmul (vocab_size m) layer (fc_weight vs)),
           bn vs)
      \<and> \<lparr>var_name = ''fc/bias'', var_shape = [vocab_size m],
          var_init = ConstantInit (zeros (vocab_size m))\<rparr> \<in> set (logit_variables m)
      \<and> fc_bias vs \<in> set (trainable_variables m vs))"
  by (simp add: logit_layer_def logit_variables_def full_connected_def
      full_connected_variables_def trainable_variables_def zeros_def)

theorem projection_bias_iff_no_batch_norm_witness:
  "batch_norm_decay (ex_model None (Some (19 / 20)) 1) = Some (19 / 20)
   \<and> logit_layer (ex_model None (Some (19 / 20)) 1) ex_variables False [[3]]
       = batch_norm [[3, 0]] (19 / 20) False (bn ex_variables)
   \<and> map var_name (logit_variables (ex_model None (Some (19 / 20)) 1)) = [''fc/weight'']
   \<and> batch_norm_decay (ex_model None None 1) = None
   \<and> logit_layer (ex_model None None 1) (ex_variables\<lparr>fc_bias := [5, 7]\<rparr>) False [[3]]
       = ([[8, 7]], bn ex_variables)
   \<and> logit_variables (ex_model None None 1)
       = [\<lparr>var_name = ''fc/weight'', var_shape = [1, 2], var_init = XavierInit 0\<rparr>,
          \<lparr>var_name = ''fc/bias'', var_shape = [2], var_init = ConstantInit [0, 0]\<rparr>]
   \<and> [5, 7] \<in> set (trainable_variables (ex_model None None 1) (ex_variables\<lparr>fc_bias := [5, 7]\<rparr>))"
proof -
  have a: "batch_norm_decay (ex_model None (Some (19 / 20)) 1) = Some (19 / 20)"
    and b: "batch_norm_decay (ex_model None None 1) = None"
    by (simp_all add: ex_model_def)
  from projection_bias_iff_no_batch_norm
    [of "ex_model None (Some (19 / 20)) 1" "19 / 20" ex_variables False "[[3]]"]
    projection_bias_iff_no_batch_norm
    [of "ex_model None None 1" 0 "ex_variables\<lparr>fc_bias := [5, 7]\<rparr>" False "[[3]]"]
  show ?thesis using a b
    by (simp add: ex_model_def ex_variables_def matmul_def tensor_eval logit_variables_def
        full_connected_variables_def)
qed

section \<open>Dropout with the keep-probability 1\<close>

lemma floor_one_plus: "0 \<le> a \<Longrightarrow> a < 1 \<Longrightarrow> \<lfloor>1 + a\<rfloor> = (1::int)" for a :: real
  by linarith

lemma dropout_keep_all: "uniform01 u \<Longrightarrow> dropout x 1 u = x"
proof -
  assume u: "uniform01 u"
  have "\<And>j. of_int \<lfloor>1 + u j\<rfloor> = (1::real)"
    using u floor_one_plus [of "u j" for j] by (simp add: uniform01_def)
  then have "dropout x 1 u = map snd (zip [0..<length x] x)"
    by (simp add: dropout_def case_prod_unfold)
  then show ?thesis by simp
qed

lemma dropout_rows_keep_all: "(\<And>r. uniform01 (u r)) \<Longrightarrow> dropout_rows x 1 u = x"
proof -
  assume u: "\<And>r. uniform01 (u r)"
  have "dropout_rows x 1 u = map snd (zip [0..<length x] x)"
    by (simp add: dropout_rows_def case_prod_unfold dropout_keep_all u)
  then show ?thesis by simp
qed

lemma dropout_seqs_keep_all: "(\<And>b t. uniform01 (u b t)) \<Longrightarrow> dropout_seqs x 1 u = x"
proof -
  assume u: "\<And>b t. uniform01 (u b t)"
  have "dropout_seqs x 1 u = map snd (zip [0..<length x] x)"
    by (simp add: dropout_seqs_def case_prod_unfold dropout_rows_keep_all u)
  then show ?thesis by simp
qed

lemma lstm_update_keep_all:
  "uniform01 u \<Longrightarrow> lstm_update lnorm (Some 1) p u c pre = lstm_update lnorm None p v c pre"
  by (simp add: lstm_update_def dropout_keep_all split: prod.splits)

lemma custom_call_keep_all:
  "uniform01 u \<Longrightarrow>
     CustomLSTMCell_call n lnorm (Some 1) p u s x = CustomLSTMCell_call n lnorm None p v s x"
  by (simp add: CustomLSTMCell_call_def lstm_update_keep_all [where u = u and v = v])

lemma cell_call_keep_all:
  assumes "cell_keep_prob c = Some 1" and "uniform01 u" and "uniform01 ua"
    and "uniform01 v" and "uniform01 va"
  shows "cell_call c p u ua s x = cell_call c p v va s x"
proof (cases c)
  case (CustomLSTMCell a)
  then show ?thesis
    using assms custom_call_keep_all [where u = u and v = v]
      custom_call_keep_all [where u = v and v = v]
    by simp
next
  case (HyperLSTMCell a)
  then show ?thesis
    using assms custom_call_keep_all [where u = ua and v = va]
      custom_call_keep_all [where u = va and v = va]
      lstm_update_keep_all [where u = u and v = v] lstm_update_keep_all [where u = v and v = v]
    by (simp add: HyperLSTMCell_call_def hyper_aux_step_def)
qed

lemma layer_call_keep_all:
  assumes "cell_keep_prob c = Some 1" and "\<And>b. uniform01 (u b)" and "\<And>b. uniform01 (ua b)"
    and "\<And>b. uniform01 (v b)" and "\<And>b. uniform01 (va b)"
  shows "layer_call c p u ua ss xs = layer_call c p v va ss xs"
proof -
  have "\<And>b s x. cell_call c p (u b) (ua b) s x = cell_call c p (v b) (va b) s x"
    by (rule cell_call_keep_all [OF assms(1)]) (simp_all add: assms)
  then show ?thesis by (simp add: layer_call_def)
qed

lemma multi_call_keep_all:
  assumes "\<forall>l \<in> set ls. cell_keep_prob (fst l) = Some 1"
    and "\<And>i b. uniform01 (u i b)" and "\<And>i b. uniform01 (ua i b)"
    and "\<And>i b. uniform01 (v i b)" and "\<And>i b. uniform01 (va i b)"
  shows "MultiRNNCell_call ls i u ua xs = MultiRNNCell_call ls i v va xs"
  using assms(1)
proof (induction ls arbitrary: i xs)
  case Nil
  then show ?case by simp
next
  case (Cons l ls)
  obtain c p ss where l: "l = (c, p, ss)" by (cases l) auto
  have k: "cell_keep_prob c = Some 1" using Cons.prems l by simp
  have "layer_call c p (u i) (ua i) ss xs = layer_call c p (v i) (va i) ss xs"
    by (rule layer_call_keep_all [OF k]) (simp_all add: assms)
  moreover have "\<And>ys. MultiRNNCell_call ls (Suc i) u ua ys = MultiRNNCell_call ls (Suc i) v va ys"
    using Cons by simp
  ultimately show ?case by (simp add: l)
qed

lemma unroll_keep_all:
  assumes "\<forall>c \<in> set cells. cell_keep_prob c = Some 1" and "valid_draws dr" and "valid_draws dr'"
  shows "unroll cells ps dr ts state x = unroll cells ps dr' ts state x"
proof (induction ts arbitrary: state)
  case Nil
  then show ?case by simp
next
  case (Cons t ts)
  have z: "\<forall>l \<in> set (zip cells (zip ps state)). cell_keep_prob (fst l) = Some 1"
    using assms(1) by (auto dest: set_zip_leftD)
  have "MultiRNNCell_call (zip cells (zip ps state)) 0 (\<lambda>i. rec_noise dr i t)
      (\<lambda>i. aux_noise dr i t) (map (\<lambda>s. s ! t) x)
    = MultiRNNCell_call (zip cells (zip ps state)) 0 (\<lambda>i. rec_noise dr' i t)
      (\<lambda>i. aux_noise dr' i t) (map (\<lambda>s. s ! t) x)"
    using assms(2,3) by (intro multi_call_keep_all [OF z]) (simp_all add: valid_draws_def)
  then show ?case using Cons by simp
qed

lemma build_cells_keep_prob: "\<forall>c \<in> set (build_cells m q). cell_keep_prob c = Some q"
  by (cases "LSTMCell m") (simp_all add: build_cells_def)

lemma graph_keep_all:
  assumes "valid_draws dr" and "valid_draws dr'"
  shows "graph m 1 1 tr vs ids dr = graph m 1 1 tr vs ids dr'"
proof -
  have e: "\<And>x. dropout_seqs x 1 (emb_noise dr) = x" "\<And>x. dropout_seqs x 1 (emb_noise dr') = x"
    "\<And>x. dropout_rows x 1 (fc_noise dr) = x" "\<And>x. dropout_rows x 1 (fc_noise dr') = x"
    using assms by (simp_all add: valid_draws_def dropout_seqs_keep_all dropout_rows_keep_all)
  have u: "\<And>ps ts state x. unroll (build_cells m 1) ps dr ts state x
      = unroll (build_cells m 1) ps dr' ts state x"
    by (rule unroll_keep_all [OF build_cells_keep_prob assms])
  show ?thesis by (simp add: graph_def e u)
qed


lemma valid_ex_draws: "0 \<le> a \<Longrightarrow> a < 1 \<Longrightarrow> valid_draws (ex_draws a)"
  by (simp add: valid_draws_def ex_draws_def uniform01_def const_noise_def)

section \<open>The instance, run through the graph\<close>

lemma graph_unfold:
  assumes "embed vs (num_steps m) ids = Inr emb"
    and "fst (unroll (build_cells m kpr) [cell_0 vs, cell_1 vs] dr [0..<num_steps m]
           (MultiRNNCell_zero_state (build_cells m kpr) (length emb))
           (dropout_seqs emb kp (emb_noise dr))) = outs"
    and "logit_layer m vs tr (dropout_rows (concat (transpose outs)) kp (fc_noise dr)) = (lg, bn')"
  shows "graph m kp kpr tr vs ids dr
    = Inr (map (\<lambda>b. take (num_steps m) (drop (b * num_steps m) lg)) [0..<length emb], bn')"
  using assms by (simp add: graph_def bind_def Let_def case_prod_unfold)

lemma custom_cell_example:
  "CustomLSTMCell_call (Suc 0) False (Some 1) (ex_lstm_vars ex_zero_kernel [0, 0, 0, 0]) u
     \<lparr>hidden = [0], memory = [0]\<rparr> [a] = ([0], \<lparr>hidden = [0], memory = [0]\<rparr>)"
  by (simp add: tensor_eval cell_eval ex_eval dropout_def sigmoid_def)

lemma layer_example:
  "layer_call
     (CustomLSTMCell \<lparr>num_units = Suc 0, layer_norm = False, dropout_keep_prob = Some 1\<rparr>)
     (ex_cell_vars ex_zero_kernel [0, 0, 0, 0]) u ua
     [\<lparr>main = \<lparr>hidden = [0], memory = [0]\<rparr>, aux = \<lparr>hidden = [], memory = []\<rparr>\<rparr>] [[a]]
   = ([[0]], [\<lparr>main = \<lparr>hidden = [0], memory = [0]\<rparr>, aux = \<lparr>hidden = [], memory = []\<rparr>\<rparr>])"
  by (simp add: layer_call_def custom_cell_example ex_cell_vars_def)

lemma unroll_example:
  "fst (unroll (build_cells (ex_model gc bnd kp) 1) [cell_0 ex_variables, cell_1 ex_variables] dr
     [0..<num_steps (ex_model gc bnd kp)]
     (MultiRNNCell_zero_state (build_cells (ex_model gc bnd kp) 1) (length [[[1::real]]]))
     [[[a]]]) = [[[0]]]"
proof -
  have c: "build_cells (ex_model gc bnd kp) 1
      = [CustomLSTMCell \<lparr>num_units = 1, layer_norm = False, dropout_keep_prob = Some 1\<rparr>,
         CustomLSTMCell \<lparr>num_units = 1, layer_norm = False, dropout_keep_prob = Some 1\<rparr>]"
    by (simp add: build_cells_def ex_model_def upt_rec)
  have n: "[0..<num_steps (ex_model gc bnd kp)] = [0]" by (simp add: ex_model_def)
  have v: "cell_0 ex_variables = ex_cell_vars ex_zero_kernel [0, 0, 0, 0]"
    "cell_1 ex_variables = ex_cell_vars ex_zero_kernel [0, 0, 0, 0]"
    by (simp_all add: ex_variables_def)
  show ?thesis
    by (simp add: c n v MultiRNNCell_zero_state_def zeros_def layer_example)
qed

lemma embed_example: "embed ex_variables (num_steps (ex_model gc bnd kp)) [[0]] = Inr [[[1]]]"
  by (simp add: embed_def ex_variables_def ex_model_def)

lemma graph_example_layer:
  assumes "valid_draws dr"
    and "logit_layer (ex_model gc bnd kp) ex_variables tr [[0]] = ([lg], bn')"
  shows "graph (ex_model gc bnd kp) 1 1 tr ex_variables [[0]] dr = Inr ([[lg]], bn')"
proof -
  have d: "dropout_seqs x 1 (emb_noise dr) = x" "dropout_rows y 1 (fc_noise dr) = y" for x y
    using assms(1) by (simp_all add: valid_draws_def dropout_seqs_keep_all dropout_rows_keep_all)
  have n: "num_steps (ex_model gc bnd kp) = 1" by (simp add: ex_model_def)
  have u: "fst (unroll (build_cells (ex_model gc bnd kp) 1)
      [cell_0 ex_variables, cell_1 ex_variables] dr [0..<num_steps (ex_model gc bnd kp)]
      (MultiRNNCell_zero_state (build_cells (ex_model gc bnd kp) 1) (length [[[1::real]]]))
      (dropout_seqs [[[1]]] 1 (emb_noise dr))) = [[[0]]]"
    by (simp only: d unroll_example)
  have l: "logit_layer (ex_model gc bnd kp) ex_variables tr
      (dropout_rows (concat (transpose [[[0]]])) 1 (fc_noise dr)) = ([lg], bn')"
    by (simp add: d assms(2))
  from graph_unfold [OF embed_example u l] show ?thesis by (simp add: n)
qed

lemma graph_example:
  "graph (ex_model gc None kp) 1 1 tr ex_variables [[0]] (ex_draws (1 / 2))
     = Inr ([[[0, 0]]], bn ex_variables)"
  by (rule graph_example_layer)
    (simp_all add: valid_ex_draws logit_layer_def full_connected_def matmul_def ex_model_def
      ex_variables_def tensor_eval)

lemma graph_example_bn_train:
  "graph (ex_model gc (Some d) kp) 1 1 True ex_variables [[0]] (ex_draws 0)
     = Inr ([[[0, 0]]], \<lparr>bn_beta = [0, 0], moving_mean = [d, 0], moving_variance = [d, d]\<rparr>)"
  by (rule graph_example_layer)
    (simp_all add: valid_ex_draws logit_layer_def full_connected_def matmul_def ex_model_def
      ex_variables_def tensor_eval batch_norm_def bn_apply_def mean_def variance_def
      bessel_def moving_average_def Let_def)

lemma graph_example_bn_infer:
  "graph (ex_model gc (Some d) kp) 1 1 False ex_variables [[0]] (ex_draws 0)
     = Inr ([[[- 1 / sqrt (1001 / 1000), 0]]], bn ex_variables)"
  by (rule graph_example_layer)
    (simp_all add: valid_ex_draws logit_layer_def full_connected_def matmul_def ex_model_def
      ex_variables_def tensor_eval batch_norm_def bn_apply_def)

lemma forward_example:
  "forward (ex_model gc None 1) ex_variables (ex_feed tr) (ex_draws (1 / 2))
     = Inr ([[[0, 0]]], bn ex_variables)"
proof -
  have k: "keep_prob (ex_model gc None 1) = 1" by (simp add: ex_model_def)
  show ?thesis
    by (simp add: forward_def keep_prob_t_def keep_prob_r_def ex_feed_def k graph_example)
qed

lemma trainable_example:
  "trainable_variables (ex_model gc None kp) ex_variables
     = [[1, 2], [0, 0, 0, 0, 0, 0, 0, 0], [0, 0, 0, 0], [0, 0, 0, 0, 0, 0, 0, 0], [0, 0, 0, 0],
        [1, 0], [0, 0]]"
  by (simp add: trainable_variables_def lstm_trainables_def ex_model_def ex_variables_def ex_eval)

lemma loss_example:
  "loss (ex_model gc None 1) ex_variables (ex_feed (Some True)) (ex_draws (1 / 2)) = Inr (ln 2 + 3)"
  by (simp add: loss_def forward_example trainable_example bind_def check_targets_def
      sequence_loss_def reduce_sum_axis0_def sparse_softmax_cross_entropy_def l2_loss_def
      weight_decay_t_def is_train_of_def tensor_eval)
    (simp add: ex_model_def ex_feed_def tensor_eval)

lemma sqrt_25: "sqrt 25 = 5"
  by (rule real_sqrt_unique) simp_all

lemma ex_global_norm: "global_norm (ex_gradients f vs) = 5"
  by (simp add: global_norm_def ex_gradients_def sqrt_25)

section \<open>Determinism outside training mode\<close>

text \<open>
  C10: outside training mode both keep-probabilities are 1, and two runs on the same fed
  tokens and the same variables give the same prediction (and the same logits and
  batch-norm variables), whatever the uniform draws of the two runs are.
\<close>

theorem inference_is_deterministic:
  assumes "valid_draws dr1" and "valid_draws dr2" and "\<not> is_train_of fd"
  shows "keep_prob_t m (is_train_of fd) = 1 \<and> keep_prob_r m (is_train_of fd) = 1
    \<and> forward m vs fd dr1 = forward m vs fd dr2
    \<and> prediction m vs fd dr1 = prediction m vs fd dr2"
  using assms graph_keep_all [OF assms(1,2)]
  by (simp add: prediction_def forward_def keep_prob_t_def keep_prob_r_def)

lemma prediction_example:
  "prediction (ex_model gc None kp) ex_variables (ex_feed None) (ex_draws (1 / 2))
     = Inr [[[1 / 2, 1 / 2]]]"
proof -
  have "forward (ex_model gc None kp) ex_variables (ex_feed None) (ex_draws (1 / 2))
      = Inr ([[[0, 0]]], bn ex_variables)"
    using graph_example [of gc kp]
    by (simp add: forward_def keep_prob_t_def keep_prob_r_def ex_feed_def is_train_of_def)
  then show ?thesis by (simp add: prediction_def bind_def softmax_def)
qed

theorem inference_is_deterministic_witness:
  "valid_draws (ex_draws 0) \<and> valid_draws (ex_draws (1 / 2)) \<and> \<not> is_train_of (ex_feed None)
   \<and> prediction (ex_model None None (1 / 2)) ex_variables (ex_feed None) (ex_draws 0)
     = Inr [[[1 / 2, 1 / 2]]]
   \<and> prediction (ex_model None None (1 / 2)) ex_variables (ex_feed None) (ex_draws (1 / 2))
     = Inr [[[1 / 2, 1 / 2]]]"
proof -
  have a: "valid_draws (ex_draws 0)" and b: "valid_draws (ex_draws (1 / 2))"
    by (simp_all add: valid_ex_draws)
  have c: "\<not> is_train_of (ex_feed None)" by (simp add: is_train_of_def ex_feed_def)
  from inference_is_deterministic [OF a b c, of "ex_model None None (1 / 2)" ex_variables]
  show ?thesis using a b c by (simp add: prediction_example)
qed

lemma graph_keep_prob_update: "graph (m\<lparr>keep_prob := q\<rparr>) kp kpr tr = graph m kp kpr tr"
  by (intro ext) (simp add: graph_def build_cells_def logit_layer_def)

lemma graph_no_batch_norm:
  "batch_norm_decay m = None \<Longrightarrow> graph m kp kpr tr vs ids dr = graph m kp kpr False vs ids dr"
  by (simp add: graph_def logit_layer_def)

text \<open>
  C5, as amended: with no batch-norm decay configured, the model constructed with
  \<open>keep_prob = 1\<close> and run in training mode, and the model constructed with any
  \<open>keep_prob = p\<close> and run outside training mode, give the same prediction on the same fed
  tokens and variables; in both, the keep-probabilities of all dropout operations are 1.
\<close>

theorem keep_prob_one_training_equals_inference:
  assumes "LSTMLanguageModel_init cfg ty rate gc None 1 wd lnorm = Inr m1"
    and "LSTMLanguageModel_init cfg ty rate gc None p wd lnorm = Inr m2"
    and "valid_draws dr1" and "valid_draws dr2"
    and "is_train_of fd1" and "\<not> is_train_of fd2" and "inputs fd1 = inputs fd2"
  shows "keep_prob_t m1 (is_train_of fd1) = 1 \<and> keep_prob_r m1 (is_train_of fd1) = 1
    \<and> keep_prob_t m2 (is_train_of fd2) = 1 \<and> keep_prob_r m2 (is_train_of fd2) = 1
    \<and> prediction m1 vs fd1 dr1 = prediction m2 vs fd2 dr2"
proof -
  from init_result [OF assms(1)] init_result [OF assms(2)]
  have m: "keep_prob m1 = 1" "batch_norm_decay m1 = None" "m2 = m1\<lparr>keep_prob := p\<rparr>"
    by auto
  have "graph m1 1 1 True vs (inputs fd1) dr1 = graph m1 1 1 False vs (inputs fd1) dr2"
    using graph_no_batch_norm [OF m(2), of 1 1 True] graph_keep_all [OF assms(3,4)]
    by simp
  then show ?thesis
    using assms(5,6,7)
    by (simp add: prediction_def forward_def keep_prob_t_def keep_prob_r_def m
        graph_keep_prob_update)
qed

theorem keep_prob_one_training_equals_inference_witness:
  "LSTMLanguageModel_init ex_config None (1 / 10) None None 1 1 False = Inr (ex_model None None 1)
   \<and> LSTMLanguageModel_init ex_config None (1 / 10) None None (1 / 2) 1 False
       = Inr (ex_model None None (1 / 2))
   \<and> valid_draws (ex_draws 0) \<and> valid_draws (ex_draws (1 / 2))
   \<and> is_train_of (ex_feed (Some True)) \<and> \<not> is_train_of (ex_feed None)
   \<and> inputs (ex_feed (Some True)) = inputs (ex_feed None)
   \<and> prediction (ex_model None None 1) ex_variables (ex_feed (Some True)) (ex_draws 0)
     = Inr [[[1 / 2, 1 / 2]]]
   \<and> prediction (ex_model None None (1 / 2)) ex_variables (ex_feed None) (ex_draws (1 / 2))
     = Inr [[[1 / 2, 1 / 2]]]"
proof -
  have a: "valid_draws (ex_draws 0)" and b: "valid_draws (ex_draws (1 / 2))"
    by (simp_all add: valid_ex_draws)
  have f: "is_train_of (ex_feed (Some True))" "\<not> is_train_of (ex_feed None)"
    "inputs (ex_feed (Some True)) = inputs (ex_feed None)"
    by (simp_all add: ex_feed_def is_train_of_def)
  from keep_prob_one_training_equals_inference
    [OF init_example init_example a b f, where vs = ex_variables]
  show ?thesis using a b f by (simp add: init_example prediction_example)
qed

text \<open>
  The claim as stated, for every configuration, fails when a batch-norm decay is
  configured: the training flag also selects the statistics of the batch normalisation.
  On the instance, the training run normalises the single row by itself and predicts
  (1/2, 1/2); the inference run uses the moving mean (1, 0) and does not.
\<close>

lemma prediction_bn_train:
  "prediction (ex_model gc (Some d) 1) ex_variables (ex_feed (Some True)) (ex_draws 0)
     = Inr [[[1 / 2, 1 / 2]]]"
proof -
  have k: "keep_prob (ex_model gc (Some d) 1) = 1" by (simp add: ex_model_def)
  have "forward (ex_model gc (Some d) 1) ex_variables (ex_feed (Some True)) (ex_draws 0)
     = Inr ([[[0, 0]]], \<lparr>bn_beta = [0, 0], moving_mean = [d, 0], moving_variance = [d, d]\<rparr>)"
    by (simp add: forward_def keep_prob_t_def keep_prob_r_def ex_feed_def is_train_of_def k
        graph_example_bn_train)
  then show ?thesis by (simp add: prediction_def bind_def softmax_def)
qed

lemma prediction_bn_infer:
  "prediction (ex_model gc (Some d) kp) ex_variables (ex_feed (Some False)) (ex_draws 0)
     = Inr [[softmax [- 1 / sqrt (1001 / 1000), 0]]]"
proof -
  have "forward (ex_model gc (Some d) kp) ex_variables (ex_feed (Some False)) (ex_draws 0)
     = Inr ([[[- 1 / sqrt (1001 / 1000), 0]]], bn ex_variables)"
    by (simp add: forward_def keep_prob_t_def keep_prob_r_def ex_feed_def is_train_of_def
        graph_example_bn_infer)
  then show ?thesis by (simp add: prediction_def bind_def)
qed

lemma softmax_not_half: "a \<noteq> 0 \<Longrightarrow> softmax [a, 0] \<noteq> [1 / 2, 1 / 2]"
proof
  assume a: "a \<noteq> 0" and "softmax [a, 0] = [1 / 2, 1 / 2]"
  then have "1 / (exp a + 1) = (1::real) / 2" by (simp add: softmax_def)
  then have "exp a + 1 = 2" by (simp add: field_simps)
  then have "exp a = 1" by simp
  then show False using a by simp
qed

theorem keep_prob_one_training_counterexample:
  "LSTMLanguageModel_init ex_config None (1 / 10) None (Some (19 / 20)) 1 1 False
     = Inr (ex_model None (Some (19 / 20)) 1)
   \<and> LSTMLanguageModel_init ex_config None (1 / 10) None (Some (19 / 20)) (1 / 2) 1 False
       = Inr (ex_model None (Some (19 / 20)) (1 / 2))
   \<and> valid_draws (ex_draws 0)
   \<and> prediction (ex_model None (Some (19 / 20)) 1) ex_variables (ex_feed (Some True))
       (ex_draws 0)
     \<noteq> prediction (ex_model None (Some (19 / 20)) (1 / 2)) ex_variables (ex_feed (Some False))
       (ex_draws 0)"
proof -
  have "- 1 / sqrt (1001 / 1000) \<noteq> 0" by simp
  then have "softmax [- 1 / sqrt (1001 / 1000), 0] \<noteq> [1 / 2, 1 / 2]"
    by (rule softmax_not_half)
  then show ?thesis
    by (simp add: init_example valid_ex_draws prediction_bn_train prediction_bn_infer)
qed


section \<open>The shape of the logits\<close>

lemma layer_call_shape:
  "length xs = B \<Longrightarrow> length ss = B \<Longrightarrow>
     length (fst (layer_call c p u ua ss xs)) = B \<and> length (snd (layer_call c p u ua ss xs)) = B"
  by (simp add: layer_call_def)

lemma multi_call_shape:
  assumes "\<forall>l \<in> set ls. length (snd (snd l)) = B" and "length xs = B"
  shows "length (fst (MultiRNNCell_call ls i u ua xs)) = B
    \<and> (\<forall>ss \<in> set (snd (MultiRNNCell_call ls i u ua xs)). length ss = B)"
  using assms
proof (induction ls arbitrary: i xs)
  case Nil
  then show ?case by simp
next
  case (Cons l ls)
  obtain c p ss where l: "l = (c, p, ss)" by (cases l) auto
  have s: "length ss = B" using Cons.prems l by simp
  note a = layer_call_shape [OF Cons.prems(2) s, of c p "u i" "ua i"]
  have r: "\<forall>l \<in> set ls. length (snd (snd l)) = B" using Cons.prems by simp
  note b = Cons.IH [OF r, of "fst (layer_call c p (u i) (ua i) ss xs)" "Suc i"]
  show ?case using a b by (simp add: l case_prod_unfold Let_def)
qed

lemma unroll_shape:
  assumes "\<forall>ss \<in> set state. length ss = B" and "length x = B"
  shows "length (fst (unroll cells ps dr ts state x)) = length ts
    \<and> (\<forall>out \<in> set (fst (unroll cells ps dr ts state x)). length out = B)"
  using assms(1)
proof (induction ts arbitrary: state)
  case Nil
  then show ?case by simp
next
  case (Cons t ts)
  let ?r = "MultiRNNCell_call (zip cells (zip ps state)) 0 (\<lambda>i. rec_noise dr i t)
      (\<lambda>i. aux_noise dr i t) (map (\<lambda>s. s ! t) x)"
  have z: "\<forall>l \<in> set (zip cells (zip ps state)). length (snd (snd l)) = B"
    using Cons.prems by (auto dest!: set_zip_rightD)
  have m: "length (fst ?r) = B \<and> (\<forall>ss \<in> set (snd ?r). length ss = B)"
    by (rule multi_call_shape [OF z]) (simp add: assms(2))
  from Cons.IH [of "snd ?r"] m show ?case by (simp add: case_prod_unfold Let_def)
qed

lemma length_concat_transpose:
  assumes "length outs = T" and "\<forall>out \<in> set outs. length out = B"
  shows "length (concat (transpose outs)) = B * T"
proof (cases "outs = []")
  case True
  then show ?thesis using assms by simp
next
  case False
  have "transpose outs = map (\<lambda>i. map (\<lambda>j. outs ! j ! i) [0..<length outs]) [0..<B]"
    using False assms(2) by (intro transpose_rectangle) simp_all
  then show ?thesis using assms(1) by (simp add: length_concat o_def sum_list_triv)
qed

lemma logit_layer_length: "length (fst (logit_layer m vs tr layer)) = length layer"
  by (simp add: logit_layer_def full_connected_def matmul_def batch_norm_def bn_apply_def
      Let_def split: option.splits)

lemma dropout_rows_length: "length (dropout_rows x kp u) = length x"
  by (simp add: dropout_rows_def)

lemma dropout_seqs_length: "length (dropout_seqs x kp u) = length x"
  by (simp add: dropout_seqs_def)

lemma embed_length: "embed vs t ids = Inr emb \<Longrightarrow> length emb = length ids"
  by (auto simp: embed_def split: if_splits)

lemma zero_state_shape:
  "\<forall>ss \<in> set (MultiRNNCell_zero_state cells B). length ss = B"
  by (simp add: MultiRNNCell_zero_state_def)

lemma length_chunk:
  assumes "length lg = B * T" and "b < B"
  shows "length (take T (drop (b * T) lg)) = T"
proof -
  have "b * T + T \<le> B * T"
    using assms(2) by (metis Suc_leI mult_Suc mult_le_mono1 add.commute)
  then have "min (B * T - b * T) T = T" by arith
  then show ?thesis using assms(1) by simp
qed

lemma graph_shape:
  assumes "graph m kp kpr tr vs ids dr = Inr (logit, bn')"
  shows "length logit = length ids \<and> (\<forall>row \<in> set logit. length row = num_steps m)"
proof -
  from assms obtain emb where e: "embed vs (num_steps m) ids = Inr emb"
    by (auto simp: graph_def bind_Inr)
  let ?B = "length emb"
  let ?x = "dropout_seqs emb kp (emb_noise dr)"
  let ?cells = "build_cells m kpr"
  let ?outs = "fst (unroll ?cells [cell_0 vs, cell_1 vs] dr [0..<num_steps m]
      (MultiRNNCell_zero_state ?cells ?B) ?x)"
  let ?lg = "fst (logit_layer m vs tr (dropout_rows (concat (transpose ?outs)) kp (fc_noise dr)))"
  have o: "length ?outs = num_steps m \<and> (\<forall>out \<in> set ?outs. length out = ?B)"
    using unroll_shape [OF zero_state_shape, of ?x ?B ?cells "[cell_0 vs, cell_1 vs]" dr
        "[0..<num_steps m]"]
    by (simp add: dropout_seqs_length)
  have l: "length ?lg = ?B * num_steps m"
    using o by (simp add: logit_layer_length dropout_rows_length length_concat_transpose)
  have g: "logit = map (\<lambda>b. take (num_steps m) (drop (b * num_steps m) ?lg)) [0..<?B]"
    using assms e by (simp add: graph_def bind_def Let_def case_prod_unfold)
  show ?thesis
    using length_chunk [OF l] embed_length [OF e] by (auto simp: g)
qed


section \<open>The loss\<close>

lemma reduce_sum_axis0_rows:
  assumes "\<forall>r \<in> set rs. length r = T"
  shows "reduce_sum_axis0 T rs = map (\<lambda>t. \<Sum>r\<leftarrow>rs. r ! t) [0..<T]"
  using assms
proof (induction rs)
  case Nil
  then show ?case by (simp add: reduce_sum_axis0_def zeros_def map_replicate_const)
next
  case (Cons r rs)
  then have ih: "foldr vadd rs (zeros T) = map (\<lambda>t. \<Sum>r\<leftarrow>rs. r ! t) [0..<T]"
    and l: "length r = T"
    by (simp_all add: reduce_sum_axis0_def)
  have "vadd r (map (\<lambda>t. \<Sum>r\<leftarrow>rs. r ! t) [0..<T]) = map (\<lambda>t. r ! t + (\<Sum>r\<leftarrow>rs. r ! t)) [0..<T]"
    using l by (intro nth_equalityI) (simp_all add: vadd_def)
  then show ?case by (simp add: reduce_sum_axis0_def ih)
qed

lemma crossent_rows:
  assumes "length logit = B" and "length tg = B"
    and "\<forall>row \<in> set logit. length row = T" and "\<forall>row \<in> set tg. length row = T"
  shows "map (\<lambda>(zs, ys, ws).
             map (\<lambda>(z, y, w). sparse_softmax_cross_entropy z y * w) (zip zs (zip ys ws)))
           (zip logit (zip tg (replicate B (replicate T 1))))
         = map (\<lambda>b. map (\<lambda>t. sparse_softmax_cross_entropy (logit ! b ! t) (tg ! b ! t)) [0..<T])
             [0..<B]"
proof (rule nth_equalityI)
  show "length (map (\<lambda>(zs, ys, ws).
             map (\<lambda>(z, y, w). sparse_softmax_cross_entropy z y * w) (zip zs (zip ys ws)))
           (zip logit (zip tg (replicate B (replicate T 1)))))
      = length (map (\<lambda>b. map (\<lambda>t. sparse_softmax_cross_entropy (logit ! b ! t) (tg ! b ! t))
           [0..<T]) [0..<B])"
    using assms by simp
next
  fix b
  assume "b < length (map (\<lambda>(zs, ys, ws).
             map (\<lambda>(z, y, w). sparse_softmax_cross_entropy z y * w) (zip zs (zip ys ws)))
           (zip logit (zip tg (replicate B (replicate T 1)))))"
  then have b: "b < B" using assms by simp
  then have l: "length (logit ! b) = T" "length (tg ! b) = T" using assms by simp_all
  have "map (\<lambda>(z, y, w). sparse_softmax_cross_entropy z y * w)
          (zip (logit ! b) (zip (tg ! b) (replicate T 1)))
      = map (\<lambda>t. sparse_softmax_cross_entropy (logit ! b ! t) (tg ! b ! t)) [0..<T]"
    using l by (intro nth_equalityI) simp_all
  then show "map (\<lambda>(zs, ys, ws).
             map (\<lambda>(z, y, w). sparse_softmax_cross_entropy z y * w) (zip zs (zip ys ws)))
           (zip logit (zip tg (replicate B (replicate T 1)))) ! b
      = map (\<lambda>b. map (\<lambda>t. sparse_softmax_cross_entropy (logit ! b ! t) (tg ! b ! t)) [0..<T])
          [0..<B] ! b"
    using b assms by simp
qed

lemma sum_list_upt_lessThan: "(\<Sum>i\<leftarrow>[0..<n]. f i) = (\<Sum>i<n. f i)" for f :: "nat \<Rightarrow> real"
  by (simp add: interv_sum_list_conv_sum_set_nat atLeast0LessThan)

lemma sequence_loss_ones:
  assumes "length logit = B" and "length tg = B"
    and "\<forall>row \<in> set logit. length row = T" and "\<forall>row \<in> set tg. length row = T"
  shows "sequence_loss T logit tg (replicate B (replicate T 1))
    = map (\<lambda>t. (\<Sum>b<B. sparse_softmax_cross_entropy (logit ! b ! t) (tg ! b ! t)) / real B)
        [0..<T]"
proof -
  let ?ce = "\<lambda>b t. sparse_softmax_cross_entropy (logit ! b ! t) (tg ! b ! t)"
  have w: "reduce_sum_axis0 T (replicate B (replicate T 1)) = map (\<lambda>t. real B) [0..<T]"
    by (subst reduce_sum_axis0_rows) (simp_all add: o_def sum_list_replicate)
  have "reduce_sum_axis0 T (map (\<lambda>b. map (?ce b) [0..<T]) [0..<B])
      = map (\<lambda>t. \<Sum>r\<leftarrow>map (\<lambda>b. map (?ce b) [0..<T]) [0..<B]. r ! t) [0..<T]"
    by (rule reduce_sum_axis0_rows) simp
  also have "\<dots> = map (\<lambda>t. \<Sum>b<B. ?ce b t) [0..<T]"
    by (simp add: o_def sum_list_upt_lessThan)
  finally have c: "reduce_sum_axis0 T (map (\<lambda>b. map (?ce b) [0..<T]) [0..<B])
      = map (\<lambda>t. \<Sum>b<B. ?ce b t) [0..<T]" .
  have "map2 (/) (map (\<lambda>t. \<Sum>b<B. ?ce b t) [0..<T]) (map (\<lambda>t. real B) [0..<T])
      = map (\<lambda>t. (\<Sum>b<B. ?ce b t) / real B) [0..<T]"
    by (intro nth_equalityI) simp_all
  then show ?thesis
    by (simp add: sequence_loss_def crossent_rows [OF assms] c w Let_def)
qed

lemma check_targets_Inr:
  "check_targets m B tg = Inr u \<longleftrightarrow>
     length tg = B \<and> (\<forall>row \<in> set tg. length row = num_steps m)
     \<and> (\<forall>row \<in> set tg. \<forall>k \<in> set row. 0 \<le> k \<and> nat k < vocab_size m)"
  by (auto simp: check_targets_def list_all_iff)

text \<open>
  C3: for a run the graph accepts, with targets of the shape of the batch, the loss is the
  cross-entropy of each step against the target token, averaged over the batch and summed
  over the \<open>num_steps\<close> steps, plus the weight-decay coefficient times the sum of the L2
  penalties (\<^verbatim>\<open>tf.nn.l2_loss\<close>, half the sum of squares) of the trainable variables; and
  outside training mode the coefficient is 0 and the loss is the cross-entropy term alone.
\<close>

theorem loss_is_cross_entropy_plus_weight_decay:
  assumes "forward m vs fd dr = Inr (logit, bn')"
    and "check_targets m (length logit) (targets fd) = Inr ()"
  shows "loss m vs fd dr = Inr (spec_loss m vs (is_train_of fd) logit (targets fd))
    \<and> (\<not> is_train_of fd \<longrightarrow>
         weight_decay_t m (is_train_of fd) = 0
         \<and> loss m vs fd dr
           = Inr (\<Sum>t<num_steps m.
                    (\<Sum>b<length logit.
                       sparse_softmax_cross_entropy (logit ! b ! t) (targets fd ! b ! t))
                    / real (length logit)))"
proof -
  have s: "\<forall>row \<in> set logit. length row = num_steps m"
    using graph_shape assms(1) by (simp add: forward_def)
  have t: "length (targets fd) = length logit"
    "\<forall>row \<in> set (targets fd). length row = num_steps m"
    using assms(2) by (simp_all add: check_targets_Inr)
  note q = sequence_loss_ones [OF refl t(1) s t(2)]
  have "loss m vs fd dr = Inr (spec_loss m vs (is_train_of fd) logit (targets fd))"
    using assms
    by (simp add: loss_def bind_def q spec_loss_def weight_decay_t_def sum_list_upt_lessThan
        Let_def)
  then show ?thesis by (simp add: spec_loss_def weight_decay_t_def)
qed


theorem loss_is_cross_entropy_plus_weight_decay_witness:
  "forward (ex_model None None 1) ex_variables (ex_feed (Some True)) (ex_draws (1 / 2))
     = Inr ([[[0, 0]]], bn ex_variables)
   \<and> check_targets (ex_model None None 1) (length [[[0, 0::real]]])
        (targets (ex_feed (Some True))) = Inr ()
   \<and> loss (ex_model None None 1) ex_variables (ex_feed (Some True)) (ex_draws (1 / 2))
     = Inr (spec_loss (ex_model None None 1) ex_variables True [[[0, 0]]] [[1]])
   \<and> spec_loss (ex_model None None 1) ex_variables True [[[0, 0]]] [[1]] = ln 2 + 3
   \<and> forward (ex_model None None 1) ex_variables (ex_feed None) (ex_draws (1 / 2))
     = Inr ([[[0, 0]]], bn ex_variables)
   \<and> check_targets (ex_model None None 1) (length [[[0, 0::real]]]) (targets (ex_feed None))
     = Inr ()
   \<and> \<not> is_train_of (ex_feed None)
   \<and> loss (ex_model None None 1) ex_variables (ex_feed None) (ex_draws (1 / 2)) = Inr (ln 2)"
proof -
  have c: "check_targets (ex_model None None 1) (length [[[0, 0::real]]]) (targets (ex_feed tr))
      = Inr ()" for tr
    by (simp add: check_targets_def ex_model_def ex_feed_def)
  have i: "is_train_of (ex_feed (Some True)) = True" "is_train_of (ex_feed None) = False"
    by (simp_all add: is_train_of_def ex_feed_def)
  have t: "targets (ex_feed tr) = [[1]]" for tr by (simp add: ex_feed_def)
  have n: "num_steps (ex_model None None 1) = 1" by (simp add: ex_model_def)
  have x: "sparse_softmax_cross_entropy [0, 0] 1 = ln 2"
    by (simp add: sparse_softmax_cross_entropy_def)
  note A = loss_is_cross_entropy_plus_weight_decay
      [OF forward_example [of None "Some True"] c [of "Some True"]]
  note B = loss_is_cross_entropy_plus_weight_decay
      [OF forward_example [of None None] c [of None]]
  have l1: "loss (ex_model None None 1) ex_variables (ex_feed (Some True)) (ex_draws (1 / 2))
      = Inr (spec_loss (ex_model None None 1) ex_variables True [[[0, 0]]] [[1]])"
    using A by (simp add: i t)
  have s1: "spec_loss (ex_model None None 1) ex_variables True [[[0, 0]]] [[1]] = ln 2 + 3"
    using l1 loss_example [of None] by simp
  have l2: "loss (ex_model None None 1) ex_variables (ex_feed None) (ex_draws (1 / 2))
      = Inr (ln 2)"
    using conjunct2 [OF B] by (simp add: i t n x)
  show ?thesis
    using forward_example [of None "Some True"] forward_example [of None None]
      c [of "Some True"] c [of None] l1 s1 l2 i
    by simp
qed

section \<open>The training step\<close>

lemma sumsq_nonneg: "0 \<le> (\<Sum>a\<leftarrow>t. a\<^sup>2)" for t :: vec
  by (induction t) simp_all

lemma sumsq_all_nonneg: "0 \<le> (\<Sum>t\<leftarrow>ts. \<Sum>a\<leftarrow>t. a\<^sup>2)" for ts :: "vec list"
  by (induction ts) (simp_all add: sumsq_nonneg)

lemma global_norm_nonneg: "0 \<le> global_norm ts"
  by (simp add: global_norm_def sumsq_all_nonneg)

lemma sumsq_scale:
  "(\<Sum>a\<leftarrow>t. (a * k)\<^sup>2) = k\<^sup>2 * (\<Sum>a\<leftarrow>t. a\<^sup>2)" for k :: real
  by (induction t) (simp_all add: power_mult_distrib distrib_left)

lemma sumsq_all_scale:
  "(\<Sum>t\<leftarrow>ts. \<Sum>a\<leftarrow>t. (a * k)\<^sup>2) = k\<^sup>2 * (\<Sum>t\<leftarrow>ts. \<Sum>a\<leftarrow>t. a\<^sup>2)" for k :: real
  by (induction ts) (simp_all add: sumsq_scale distrib_left)

lemma global_norm_scale: "global_norm (map (map (\<lambda>a. a * k)) ts) = \<bar>k\<bar> * global_norm ts"
  by (simp add: global_norm_def o_def sumsq_all_scale real_sqrt_mult)

lemma clip_scale_pos:
  assumes "0 < c" and "0 \<le> g"
  shows "clip_scale g c = c / max g c"
proof (cases "g = 0")
  case True
  then show ?thesis using assms by (simp add: clip_scale_def)
next
  case False
  with assms have g: "0 < g" by simp
  show ?thesis
  proof (cases "g \<le> c")
    case True
    then have "1 / c \<le> 1 / g" using g assms by (simp add: frac_le)
    then show ?thesis using True False assms by (simp add: clip_scale_def min_def max_def)
  next
    case False
    then have "c < g" by simp
    then have "1 / g \<le> 1 / c" using assms by (simp add: frac_le)
    then show ?thesis using \<open>c < g\<close> g assms by (simp add: clip_scale_def min_def max_def)
  qed
qed

lemma clip_scale_neg:
  assumes "c < 0" and "0 \<le> g"
  shows "clip_scale g c = 1"
proof (cases "g = 0")
  case True
  then show ?thesis using assms by (simp add: clip_scale_def)
next
  case False
  with assms have g: "0 < g" by simp
  have "1 / c < 0" using assms by simp
  also have "0 < 1 / g" using g by simp
  finally have "1 / c \<le> 1 / g" by (rule less_imp_le)
  then have "min (1 / g) (1 / c) = 1 / c" by (rule min_absorb2)
  then have "clip_scale g c = c * (1 / c)" using False by (simp only: clip_scale_def if_False)
  then show ?thesis using assms by simp
qed

lemma clip_as_scale:
  assumes "0 < c"
  shows "clip_by_global_norm ts c = map (map (\<lambda>a. a * (c / max (global_norm ts) c))) ts"
  by (simp add: clip_by_global_norm_def clip_scale_pos [OF assms global_norm_nonneg])

lemma clip_below_zero:
  assumes "c < 0"
  shows "clip_by_global_norm ts c = ts"
  by (simp add: clip_by_global_norm_def clip_scale_neg [OF assms global_norm_nonneg]
      map_idI)

lemma clipped_norm_le:
  assumes "0 < c"
  shows "global_norm (clip_by_global_norm ts c) \<le> c"
proof -
  let ?g = "global_norm ts"
  have g: "0 \<le> ?g" by (rule global_norm_nonneg)
  have m: "0 < max ?g c" "?g \<le> max ?g c" using assms by simp_all
  have "global_norm (clip_by_global_norm ts c) = \<bar>c / max ?g c\<bar> * ?g"
    by (simp only: clip_as_scale [OF assms] global_norm_scale)
  also have "\<dots> = c / max ?g c * ?g"
    using assms m(1) by (simp only: abs_of_pos divide_pos_pos)
  also have "\<dots> = c * (?g / max ?g c)" by simp
  also have "\<dots> \<le> c * 1"
    using assms m by (intro mult_left_mono) (simp_all add: divide_le_eq_1)
  finally show ?thesis by simp
qed

text \<open>
  C4: for a run the graph accepts, with a clipping threshold \<open>c\<close> configured the training
  step applies, by plain gradient descent at the learning rate of the model, the gradients
  of the loss at all trainable variables clipped by their global norm, and the global L2
  norm of the clipped gradients is at most \<open>c\<close>; with no threshold configured it applies the
  gradients as they are, by the same gradient descent. The threshold is one that
  \<^verbatim>\<open>tf.clip_by_global_norm\<close> is documented for, a number above 0. (The constructor does not
  check the sign; below 0 the library's factor is 1, see \<open>clip_below_zero\<close>.)
\<close>

theorem train_op_clips_then_descends:
  assumes "loss m vs fd dr = Inr l"
  shows "(clip m = Some c \<longrightarrow> 0 < c \<longrightarrow>
            train_op m G vs fd dr
              = Inr (apply_gradients (lr m)
                       (zip (clip_by_global_norm (G (\<lambda>w. loss m w fd dr) vs) c)
                            (trainable_variables m vs)))
            \<and> global_norm (clip_by_global_norm (G (\<lambda>w. loss m w fd dr) vs) c) \<le> c)
         \<and> (clip m = None \<longrightarrow>
            train_op m G vs fd dr
              = Inr (apply_gradients (lr m)
                       (zip (G (\<lambda>w. loss m w fd dr) vs) (trainable_variables m vs))))"
  using assms by (simp add: train_op_def bind_def clipped_norm_le Let_def)

lemma clip_example:
  "clip_by_global_norm (ex_gradients f vs) 1 = map (map (\<lambda>a. a * (1 / 5))) (ex_gradients f vs)"
  by (simp add: clip_by_global_norm_def clip_scale_def ex_global_norm)

theorem train_op_clips_then_descends_witness:
  "loss (ex_model (Some 1) None 1) ex_variables (ex_feed (Some True)) (ex_draws (1 / 2))
     = Inr (ln 2 + 3)
   \<and> clip (ex_model (Some 1) None 1) = Some 1 \<and> (0::real) < 1
   \<and> train_op (ex_model (Some 1) None 1) ex_gradients ex_variables (ex_feed (Some True))
        (ex_draws (1 / 2))
     = Inr [[47 / 50, 2], [0, 0, 0, 0, 0, 0, 0, 0], [0, 0, 0, 0], [0, 0, 0, 0, 0, 0, 0, 0],
            [0, 0, 0, 0], [1, - 2 / 25], [0, 0]]
   \<and> global_norm (clip_by_global_norm
        (ex_gradients (\<lambda>w. loss (ex_model (Some 1) None 1) w (ex_feed (Some True))
           (ex_draws (1 / 2))) ex_variables) 1) \<le> 1
   \<and> loss (ex_model None None 1) ex_variables (ex_feed (Some True)) (ex_draws (1 / 2))
     = Inr (ln 2 + 3)
   \<and> clip (ex_model None None 1) = None
   \<and> train_op (ex_model None None 1) ex_gradients ex_variables (ex_feed (Some True))
        (ex_draws (1 / 2))
     = Inr [[7 / 10, 2], [0, 0, 0, 0, 0, 0, 0, 0], [0, 0, 0, 0], [0, 0, 0, 0, 0, 0, 0, 0],
            [0, 0, 0, 0], [1, - 2 / 5], [0, 0]]"
proof -
  have a: "clip (ex_model (Some 1) None 1) = Some 1" "lr (ex_model (Some 1) None 1) = 1 / 10"
    and b: "clip (ex_model None None 1) = None" "lr (ex_model None None 1) = 1 / 10"
    by (simp_all add: ex_model_def)
  have g: "ex_gradients f ex_variables = [[3, 0], [0, 0, 0, 0, 0, 0, 0, 0], [0, 0, 0, 0],
      [0, 0, 0, 0, 0, 0, 0, 0], [0, 0, 0, 0], [0, 4], [0, 0]]" for f
    by (simp add: ex_gradients_def)
  from train_op_clips_then_descends [OF loss_example [of "Some 1"], of 1 ex_gradients]
    train_op_clips_then_descends [OF loss_example [of None], of 0 ex_gradients]
  show ?thesis
    using a b loss_example [of "Some 1"] loss_example [of None]
    by (simp add: clip_example trainable_example apply_gradients_def)
      (simp add: g)
qed

lemma loss_lr_decay: "loss m w (fd\<lparr>lr_decay := a\<rparr>) dr = loss m w fd dr"
  by (simp add: loss_def forward_def is_train_of_def)

text \<open>
  C8: two training steps that differ only in the value fed for \<open>lr_decay\<close> assign the same
  values to the trainable variables (or fail alike): the placeholder is read by nothing,
  and the optimizer's rate is the \<open>lr\<close> of the model.
\<close>

theorem train_op_ignores_lr_decay:
  "train_op m G vs (fd\<lparr>lr_decay := a\<rparr>) dr = train_op m G vs (fd\<lparr>lr_decay := b\<rparr>) dr"
  by (simp add: train_op_def loss_lr_decay)

end
